theory Spec2Isabelle
  imports Main "HOL-Library.Multiset"
begin

section \<open>Order ranking and filtering (\<open>WarframeMarketApp.displayOrders\<close>)\<close>

text \<open>
  An order of the market API, with the fields \<open>displayOrders\<close> reads. The user status and
  the order type are the strings of the JSON document; \<open>platinum\<close> is a number.
\<close>

record market_user =
  ingame_name :: string
  status :: string

record order =
  user :: market_user
  order_type :: string
  platinum :: int
  quantity :: int

text \<open>
  \<open>Array.prototype.sort(cmp)\<close> is stable: \<open>a\<close> comes before \<open>b\<close> when \<open>cmp a b < 0\<close>, and
  elements that compare equal keep their input order. For a consistent comparator every
  stable sort returns the same list, so the sort is modelled by stable insertion:
  an element is put in front of the first element of the sorted rest it does not exceed.
\<close>

fun insert_by :: "('a \<Rightarrow> 'a \<Rightarrow> int) \<Rightarrow> 'a \<Rightarrow> 'a list \<Rightarrow> 'a list" where
  "insert_by cmp x [] = [x]"
| "insert_by cmp x (y # ys) = (if cmp x y \<le> 0 then x # y # ys else y # insert_by cmp x ys)"

definition js_sort :: "('a \<Rightarrow> 'a \<Rightarrow> int) \<Rightarrow> 'a list \<Rightarrow> 'a list" where
  "js_sort cmp xs = foldr (insert_by cmp) xs []"

text \<open>
  \<open>const statusPriority = { ingame: 3, online: 2, offline: 1 }\<close> read as
  \<open>statusPriority[s] || 0\<close>. The comparator is only ever called on orders that passed the
  online filter, whose status is \<open>ingame\<close> or \<open>online\<close>.
\<close>

definition statusPriority :: "string \<Rightarrow> int" where
  "statusPriority s =
     (if s = ''ingame'' then 3 else if s = ''online'' then 2 else if s = ''offline'' then 1 else 0)"

definition sortWithPriority :: "order \<Rightarrow> order \<Rightarrow> bool \<Rightarrow> int" where
  "sortWithPriority a b isAscending =
     (let aPriority = statusPriority (status (user a));
          bPriority = statusPriority (status (user b))
      in if aPriority \<noteq> bPriority then bPriority - aPriority
         else if isAscending then platinum a - platinum b else platinum b - platinum a)"

text \<open>The orders left after the online filter and the order type filter (\<open>onlineOrders\<close>).\<close>

definition onlineOrders :: "string \<Rightarrow> order list \<Rightarrow> order list" where
  "onlineOrders orderFilter orders =
     (let filteredOrders =
            filter (\<lambda>ord. status (user ord) = ''ingame'' \<or> status (user ord) = ''online'') orders
      in if orderFilter = ''buy'' then filter (\<lambda>ord. order_type ord = ''buy'') filteredOrders
         else if orderFilter = ''sell'' then filter (\<lambda>ord. order_type ord = ''sell'') filteredOrders
         else filteredOrders)"

definition buyOrders :: "string \<Rightarrow> order list \<Rightarrow> order list" where
  "buyOrders orderFilter orders =
     js_sort (\<lambda>a b. sortWithPriority a b False)
       (filter (\<lambda>ord. order_type ord = ''buy'') (onlineOrders orderFilter orders))"

definition sellOrders :: "string \<Rightarrow> order list \<Rightarrow> order list" where
  "sellOrders orderFilter orders =
     js_sort (\<lambda>a b. sortWithPriority a b True)
       (filter (\<lambda>ord. order_type ord = ''sell'') (onlineOrders orderFilter orders))"

text \<open>The two displayed sides: \<open>sellOrders.slice(0, 10)\<close> and \<open>buyOrders.slice(0, 10)\<close>.\<close>

definition rankedSell :: "string \<Rightarrow> order list \<Rightarrow> order list" where
  "rankedSell orderFilter orders = take 10 (sellOrders orderFilter orders)"

definition rankedBuy :: "string \<Rightarrow> order list \<Rightarrow> order list" where
  "rankedBuy orderFilter orders = take 10 (buyOrders orderFilter orders)"

text \<open>
  What \<open>displayOrders\<close> renders: nothing when the table body element is missing, the
  "No orders available" message for an empty input, and otherwise the rows of
  \<open>allOrdersSorted\<close>, the sell side first.
\<close>

datatype rendering = TableMissing | NoOrders | Rows "order list"

definition displayOrders :: "bool \<Rightarrow> string \<Rightarrow> order list \<Rightarrow> rendering" where
  "displayOrders tableBody orderFilter orders =
     (if \<not> tableBody then TableMissing
      else if length orders = 0 then NoOrders
      else Rows (rankedSell orderFilter orders @ rankedBuy orderFilter orders))"

section \<open>The response caches (\<open>WarframeMarketAPI\<close>, \<open>WarframeAlertsAPI\<close>)\<close>

text \<open>A thrown JavaScript error: an \<open>Error\<close> or a \<open>TypeError\<close>, with its message.\<close>

datatype error = Error (message: string) | TypeError (message: string)

text \<open>Decimal digits of a number, as a template literal prints it.\<close>

fun show_nat :: "nat \<Rightarrow> string" where
  "show_nat n =
     (if n < 10 then [''0123456789'' ! n] else show_nat (n div 10) @ [''0123456789'' ! (n mod 10)])"

declare show_nat.simps [simp del]

text \<open>
  What \<open>fetch\<close> resolves to: a response with a status, whose body parses to JSON or does
  not. \<open>response.ok\<close> is true for the statuses 200 to 299. The network is a parameter of
  every call: it answers a URL with a response (\<open>Inr\<close>) or rejects with a transport
  error (\<open>Inl\<close>).
\<close>

record 'd response =
  http_status :: nat
  statusText :: string
  json_body :: "error + 'd"

definition ok :: "'d response \<Rightarrow> bool" where
  "ok r = (200 \<le> http_status r \<and> http_status r \<le> 299)"

type_synonym 'd network = "string \<Rightarrow> error + 'd response"

record 'd cache_entry =
  data :: 'd
  timestamp :: int

text \<open>
  An API object: the cache (a \<open>Map\<close> from URL to entry) and \<open>cacheTimeout\<close>. The field
  \<open>requests\<close> is the record of the calls of \<open>fetch\<close> the object has made, in order.
\<close>

record 'd api =
  cache :: "string \<rightharpoonup> 'd cache_entry"
  cacheTimeout :: int
  requests :: "string list"

definition WarframeMarketAPI :: "'d api" where
  "WarframeMarketAPI = \<lparr>cache = Map.empty, cacheTimeout = 300000, requests = []\<rparr>"

definition WarframeAlertsAPI :: "'d api" where
  "WarframeAlertsAPI = \<lparr>cache = Map.empty, cacheTimeout = 60000, requests = []\<rparr>"

text \<open>
  The body of the \<open>try\<close> block shared by both classes: the request, the check of
  \<open>response.ok\<close>, and \<open>response.json()\<close>.
\<close>

definition try_fetch :: "'d network \<Rightarrow> string \<Rightarrow> error + 'd" where
  "try_fetch net url =
     (case net url of
        Inl e \<Rightarrow> Inl e
      | Inr response \<Rightarrow>
          if \<not> ok response
          then Inl (Error (''HTTP '' @ show_nat (http_status response) @ '': '' @ statusText response))
          else json_body response)"

definition is_fresh :: "int \<Rightarrow> int \<Rightarrow> 'd cache_entry option \<Rightarrow> bool" where
  "is_fresh now timeout cached =
     (case cached of None \<Rightarrow> False | Some c \<Rightarrow> now - timestamp c < timeout)"

text \<open>\<open>WarframeMarketAPI.fetchWithCache\<close>: on a failure the cached entry, if any, is returned.\<close>

definition market_fetchWithCache ::
  "'d network \<Rightarrow> int \<Rightarrow> string \<Rightarrow> 'd api \<Rightarrow> (error + 'd) \<times> 'd api" where
  "market_fetchWithCache net now url this =
     (let cached = cache this url in
      if is_fresh now (cacheTimeout this) cached then (Inr (data (the cached)), this)
      else
        let this1 = this\<lparr>requests := requests this @ [url]\<rparr> in
        case try_fetch net url of
          Inr d \<Rightarrow> (Inr d, this1\<lparr>cache := (cache this1)(url \<mapsto> \<lparr>data = d, timestamp = now\<rparr>)\<rparr>)
        | Inl err \<Rightarrow>
            (case cached of
               Some c \<Rightarrow> (Inr (data c), this1)
             | None \<Rightarrow> (Inl err, this1)))"

text \<open>
  \<open>WarframeAlertsAPI.fetchWithCache\<close>: the \<open>catch\<close> block throws a new error built from the
  message of the failure, whatever the cache holds.
\<close>

definition alerts_fetchWithCache ::
  "'d network \<Rightarrow> int \<Rightarrow> string \<Rightarrow> 'd api \<Rightarrow> (error + 'd) \<times> 'd api" where
  "alerts_fetchWithCache net now url this =
     (let cached = cache this url in
      if is_fresh now (cacheTimeout this) cached then (Inr (data (the cached)), this)
      else
        let this1 = this\<lparr>requests := requests this @ [url]\<rparr> in
        case try_fetch net url of
          Inr d \<Rightarrow> (Inr d, this1\<lparr>cache := (cache this1)(url \<mapsto> \<lparr>data = d, timestamp = now\<rparr>)\<rparr>)
        | Inl err \<Rightarrow> (Inl (Error (''Failed to fetch alerts data: '' @ message err)), this1))"

section \<open>Item search (\<open>WarframeMarketAPI.searchItems\<close>)\<close>

text \<open>
  A parsed JSON document. A property that is absent reads as \<open>undefined\<close>, which is
  \<open>None\<close> of \<open>json option\<close>. The properties of an object are its association list.
\<close>

datatype json =
  JNull | JBool bool | JNum int | JStr string | JArr "json list" | JObj "(string \<times> json) list"

text \<open>
  \<open>v.p\<close> for one of the property names the program reads: a \<open>TypeError\<close> on \<open>undefined\<close> and
  \<open>null\<close>, the property of an object, and \<open>undefined\<close> on every other value.
\<close>

fun get_prop :: "json option \<Rightarrow> string \<Rightarrow> error + json option" where
  "get_prop None p = Inl (TypeError (''Cannot read properties of undefined''))"
| "get_prop (Some JNull) p = Inl (TypeError (''Cannot read properties of null''))"
| "get_prop (Some (JObj kvs)) p = Inr (map_of kvs p)"
| "get_prop (Some v) p = Inr None"

text \<open>\<open>String.prototype.toLowerCase\<close> and \<open>includes\<close>, on ASCII text.\<close>

definition toLowerCase :: "string \<Rightarrow> string" where
  "toLowerCase s =
     map (\<lambda>c. if 65 \<le> (of_char c :: nat) \<and> (of_char c :: nat) \<le> 90
               then char_of ((of_char c :: nat) + 32) else c) s"

fun str_includes :: "string \<Rightarrow> string \<Rightarrow> bool" where
  "str_includes [] needle = (needle = [])"
| "str_includes (c # cs) needle = (take (length needle) (c # cs) = needle \<or> str_includes cs needle)"

text \<open>
  \<open>v.p.toLowerCase()\<close>: the call is a \<open>TypeError\<close> unless the property is a string.
\<close>

definition lower_prop :: "json \<Rightarrow> string \<Rightarrow> error + string" where
  "lower_prop v p =
     (case get_prop (Some v) p of
        Inl e \<Rightarrow> Inl e
      | Inr (Some (JStr s)) \<Rightarrow> Inr (toLowerCase s)
      | Inr _ \<Rightarrow> Inl (TypeError ''toLowerCase is not a function''))"

text \<open>The predicate of the filter; the second disjunct is evaluated only when the first is false.\<close>

definition item_matches :: "string \<Rightarrow> json \<Rightarrow> error + bool" where
  "item_matches query item =
     (case lower_prop item ''item_name'' of
        Inl e \<Rightarrow> Inl e
      | Inr name \<Rightarrow>
          if str_includes name (toLowerCase query) then Inr True
          else (case lower_prop item ''url_name'' of
                  Inl e \<Rightarrow> Inl e
                | Inr url_name \<Rightarrow> Inr (str_includes url_name (toLowerCase query))))"

text \<open>\<open>Array.prototype.filter\<close> with a callback that may throw: the first throw ends it.\<close>

fun filter_throwing :: "('a \<Rightarrow> error + bool) \<Rightarrow> 'a list \<Rightarrow> error + 'a list" where
  "filter_throwing p [] = Inr []"
| "filter_throwing p (x # xs) =
     (case p x of
        Inl e \<Rightarrow> Inl e
      | Inr keep \<Rightarrow>
          (case filter_throwing p xs of
             Inl e \<Rightarrow> Inl e
           | Inr rest \<Rightarrow> Inr (if keep then x # rest else rest)))"

definition baseURL :: "bool \<Rightarrow> string" where
  "baseURL isElectron =
     (if isElectron then ''https://api.warframe.market/v1''
      else ''https://corsproxy.io/?https://api.warframe.market/v1'')"

definition getItems :: "bool \<Rightarrow> json network \<Rightarrow> int \<Rightarrow> json api \<Rightarrow> (error + json) \<times> json api" where
  "getItems isElectron net now this =
     market_fetchWithCache net now (baseURL isElectron @ ''/items'') this"

text \<open>The body of the \<open>try\<close> block of \<open>searchItems\<close> after \<open>getItems\<close> has returned.\<close>

definition search_in :: "string \<Rightarrow> json \<Rightarrow> error + json list" where
  "search_in query response =
     (case get_prop (Some response) ''payload'' of
        Inl e \<Rightarrow> Inl e
      | Inr payload \<Rightarrow>
          (case get_prop payload ''items'' of
             Inl e \<Rightarrow> Inl e
           | Inr (Some (JArr items)) \<Rightarrow>
               (case filter_throwing (item_matches query) items of
                  Inl e \<Rightarrow> Inl e
                | Inr filtered \<Rightarrow> Inr (take 10 filtered))
           | Inr _ \<Rightarrow> Inl (TypeError ''items.filter is not a function'')))"

text \<open>
  \<open>searchItems\<close>: every error thrown in the \<open>try\<close> block is caught and answered by \<open>[]\<close>.
  The result type has no error: the function returns a list on every path.
\<close>

definition searchItems ::
  "bool \<Rightarrow> json network \<Rightarrow> int \<Rightarrow> string \<Rightarrow> json api \<Rightarrow> json list \<times> json api" where
  "searchItems isElectron net now query this =
     (case getItems isElectron net now this of
        (Inl e, this') \<Rightarrow> ([], this')
      | (Inr response, this') \<Rightarrow>
          (case search_in query response of
             Inl e \<Rightarrow> ([], this')
           | Inr filtered \<Rightarrow> (filtered, this')))"

section \<open>Countdown timers (\<open>WarframeMarketApp\<close>)\<close>

text \<open>
  A primitive JavaScript value, as the world state document gives the fields \<open>state\<close>,
  \<open>isDay\<close>, \<open>active\<close>. On primitives \<open>!==\<close> is \<open>\<noteq>\<close>.
\<close>

datatype jsprim = PUndefined | PNull | PBool bool | PNum int | PStr string

text \<open>
  The timer objects stored in the three maps: \<open>{seconds, state, isDay}\<close> for a cycle and
  \<open>{seconds, expiry}\<close> for an alert or a fissure.
\<close>

record timer =
  seconds :: int

record cycle_timer = timer +
  state :: jsprim
  isDay :: jsprim

record expiry_timer = timer +
  expiry :: int

text \<open>
  A JavaScript \<open>Map\<close> keeps its keys in insertion order; \<open>set\<close> on a present key replaces
  the value in place, and on a new key appends. \<open>get\<close> is \<open>map_of\<close>.
\<close>

fun map_set :: "'k \<Rightarrow> 'v \<Rightarrow> ('k \<times> 'v) list \<Rightarrow> ('k \<times> 'v) list" where
  "map_set k v [] = [(k, v)]"
| "map_set k v ((k', v') # m) = (if k' = k then (k, v) # m else (k', v') # map_set k v m)"

text \<open>
  A cycle of the world state. \<open>cd_expiry\<close> is \<open>new Date(cycle.data.expiry).getTime()\<close> in
  milliseconds, \<open>None\<close> when the field is missing or empty.
\<close>

record cycle_data =
  cd_isDay :: jsprim
  cd_isWarm :: jsprim
  cd_isCorpus :: jsprim
  cd_state :: jsprim
  cd_expiry :: "int option"

text \<open>
  An alert, with \<open>new Date(alert.expiry).getTime()\<close> when \<open>alert.expiry\<close> is there. The
  fields of an alert and of a fissure that are only rendered are left out; they are taken
  to be of the types the rendering expects, so that it does not throw.
\<close>

record alert =
  alert_expiry :: "int option"

text \<open>
  A fissure: \<open>f_expiry\<close> is the time in milliseconds of
  \<open>fissure.expiry || fissure.EXPIRY || fissure.Expiry\<close>, \<open>f_tier\<close> is
  \<open>fissure.tier || fissure.TIER || fissure.Tier\<close>; \<open>None\<close> when all variants are missing.
\<close>

record fissure =
  f_active :: jsprim
  f_ACTIVE :: jsprim
  f_expired :: jsprim
  f_EXPIRED :: jsprim
  f_expiry :: "int option"
  f_tier :: "string option"

text \<open>
  The world state document, as far as the timers read it (invasions and the sortie are
  rendered only).
\<close>

record worldState =
  earthCycle :: "cycle_data option"
  cetusCycle :: "cycle_data option"
  vallisCycle :: "cycle_data option"
  cambionCycle :: "cycle_data option"
  zarimanCycle :: "cycle_data option"
  alerts :: "alert list option"
  fissures :: "fissure list option"

subsection \<open>\<open>displayCycles\<close>\<close>

definition cycle_isDay :: "string \<Rightarrow> cycle_data \<Rightarrow> jsprim" where
  "cycle_isDay name d =
     (if name = ''Earth'' then cd_isDay d
      else if name = ''Cetus'' then cd_isDay d
      else if name = ''Vallis'' then cd_isWarm d
      else if name = ''Cambion Drift'' then PBool (cd_state d = PStr ''fass'')
      else if name = ''Zariman'' then cd_isCorpus d
      else PBool True)"

definition cycle_state :: "string \<Rightarrow> cycle_data \<Rightarrow> jsprim" where
  "cycle_state name d =
     (if name = ''Earth'' \<or> name = ''Cetus'' \<or> name = ''Vallis'' \<or> name = ''Cambion Drift''
         \<or> name = ''Zariman''
      then cd_state d else PStr ''unknown'')"

text \<open>\<open>Math.max(0, Math.floor((expiryTime - now) / 1000))\<close>, and 0 without an expiry.\<close>

definition timeInSeconds :: "int \<Rightarrow> int option \<Rightarrow> int" where
  "timeInSeconds now expiry_ms =
     (case expiry_ms of None \<Rightarrow> 0 | Some expiryTime \<Rightarrow> max 0 ((expiryTime - now) div 1000))"

text \<open>
  The tolerance rule of \<open>displayCycles\<close> for one cycle whose authoritative remaining time
  is \<open>time\<close>: \<open>shouldUpdateTimer\<close> and the conditional \<open>cycleTimers.set\<close>.
\<close>

definition shouldUpdateTimer :: "cycle_timer option \<Rightarrow> jsprim \<Rightarrow> jsprim \<Rightarrow> int \<Rightarrow> bool" where
  "shouldUpdateTimer existingTimer st isd time =
     (case existingTimer of
        None \<Rightarrow> True
      | Some t \<Rightarrow> state t \<noteq> st \<or> isDay t \<noteq> isd \<or> \<bar>seconds t - time\<bar> > 120)"

definition upsertCycle ::
  "string \<Rightarrow> jsprim \<Rightarrow> jsprim \<Rightarrow> int \<Rightarrow> (string \<times> cycle_timer) list \<Rightarrow> (string \<times> cycle_timer) list" where
  "upsertCycle name st isd time timers =
     (if shouldUpdateTimer (map_of timers name) st isd time
      then map_set name \<lparr>seconds = time, state = st, isDay = isd\<rparr> timers
      else timers)"

text \<open>Truthiness of a primitive value, as \<open>||\<close> and \<open>!\<close> read it.\<close>

fun truthy :: "jsprim \<Rightarrow> bool" where
  "truthy PUndefined = False"
| "truthy PNull = False"
| "truthy (PBool b) = b"
| "truthy (PNum n) = (n \<noteq> 0)"
| "truthy (PStr s) = (s \<noteq> [])"

text \<open>\<open>formatCycleState\<close>: the state itself for the five cycles, \<open>state || 'unknown'\<close> otherwise.\<close>

definition formatCycleState :: "string \<Rightarrow> jsprim \<Rightarrow> jsprim" where
  "formatCycleState cycleName st =
     (if cycleName = ''Earth'' \<or> cycleName = ''Cetus'' \<or> cycleName = ''Vallis''
         \<or> cycleName = ''Cambion Drift'' \<or> cycleName = ''Zariman''
      then st
      else if truthy st then st else PStr ''unknown'')"

text \<open>
  One element of the \<open>cycles\<close> array: skipped when the world state has no such cycle.
  The timer is set first; then the card is rendered, and
  \<open>formatCycleState(cycle.name, state).toUpperCase()\<close> throws a \<open>TypeError\<close> unless the state
  is a string. The result is the error thrown, if any, and the map as it then is.
\<close>

definition displayCycle ::
  "int \<Rightarrow> string \<Rightarrow> cycle_data option \<Rightarrow> (string \<times> cycle_timer) list \<Rightarrow>
   error option \<times> (string \<times> cycle_timer) list" where
  "displayCycle now name cdata timers =
     (case cdata of
        None \<Rightarrow> (None, timers)
      | Some d \<Rightarrow>
          let timers' = upsertCycle name (cycle_state name d) (cycle_isDay name d)
                          (timeInSeconds now (cd_expiry d)) timers
          in (case formatCycleState name (cycle_state name d) of
                PStr s \<Rightarrow> (None, timers')
              | _ \<Rightarrow> (Some (TypeError ''toUpperCase is not a function''), timers')))"

text \<open>The callback of \<open>cycles.map\<close> over the array: the first throw ends it.\<close>

fun displayCycles_loop ::
  "int \<Rightarrow> (string \<times> cycle_data option) list \<Rightarrow> (string \<times> cycle_timer) list \<Rightarrow>
   error option \<times> (string \<times> cycle_timer) list" where
  "displayCycles_loop now [] timers = (None, timers)"
| "displayCycles_loop now ((name, cdata) # rest) timers =
     (case displayCycle now name cdata timers of
        (Some err, timers') \<Rightarrow> (Some err, timers')
      | (None, timers') \<Rightarrow> displayCycles_loop now rest timers')"

text \<open>
  \<open>displayCycles\<close>, as far as it changes \<open>cycleTimers\<close>: the error it throws, if any, and
  the map it leaves. The first argument says whether the container element exists.
\<close>

definition cycles :: "worldState \<Rightarrow> (string \<times> cycle_data option) list" where
  "cycles ws =
     [(''Earth'', earthCycle ws), (''Cetus'', cetusCycle ws), (''Vallis'', vallisCycle ws),
      (''Cambion Drift'', cambionCycle ws), (''Zariman'', zarimanCycle ws)]"


subsection \<open>\<open>displayAlerts\<close>\<close>




subsection \<open>\<open>displayFissureDetails\<close>\<close>

definition isActiveFissure :: "int \<Rightarrow> fissure \<Rightarrow> bool" where
  "isActiveFissure now f =
     (let isActive = (f_active f \<noteq> PBool False \<and> f_ACTIVE f \<noteq> PBool False);
          isExpired = (f_expired f = PBool True \<or> f_EXPIRED f = PBool True);
          hasValidExpiry = (case f_expiry f of None \<Rightarrow> False | Some t \<Rightarrow> t > now)
      in isActive \<and> \<not> isExpired \<and> hasValidExpiry)"

fun indexOf :: "'a list \<Rightarrow> 'a \<Rightarrow> int" where
  "indexOf [] x = -1"
| "indexOf (y # ys) x = (if y = x then 0 else (let i = indexOf ys x in if i = -1 then -1 else i + 1))"

definition tierOrder :: "string list" where
  "tierOrder = [''Lith'', ''Meso'', ''Neo'', ''Axi'', ''Requiem'', ''Omnia'']"

definition getTier :: "fissure \<Rightarrow> string" where
  "getTier f = (case f_tier f of None \<Rightarrow> ''Unknown'' | Some t \<Rightarrow> t)"

definition tierIndex :: "fissure \<Rightarrow> int" where
  "tierIndex f = (if indexOf tierOrder (getTier f) = -1 then 999 else indexOf tierOrder (getTier f))"

text \<open>The expiry used by the comparator; the default is the time of \<open>'9999-12-31'\<close>.\<close>

definition getExpiry :: "fissure \<Rightarrow> int" where
  "getExpiry f = (case f_expiry f of None \<Rightarrow> 253402214400000 | Some t \<Rightarrow> t)"

definition compareFissures :: "fissure \<Rightarrow> fissure \<Rightarrow> int" where
  "compareFissures a b =
     (if tierIndex a \<noteq> tierIndex b then tierIndex a - tierIndex b else getExpiry a - getExpiry b)"

fun fissures_loop ::
  "int \<Rightarrow> nat \<Rightarrow> fissure list \<Rightarrow> (string \<times> expiry_timer) list \<Rightarrow> (string \<times> expiry_timer) list" where
  "fissures_loop now index [] m = m"
| "fissures_loop now index (f # rest) m =
     fissures_loop now (Suc index) rest
       (case f_expiry f of
          None \<Rightarrow> m
        | Some expiryTimestamp \<Rightarrow>
            if max 0 ((expiryTimestamp - now) div 1000) > 0
            then map_set (''fissure-'' @ show_nat index)
                   \<lparr>seconds = max 0 ((expiryTimestamp - now) div 1000), expiry = expiryTimestamp\<rparr> m
            else m)"

text \<open>
  \<open>displayFissureDetails\<close>, as far as it changes \<open>fissureTimers\<close>: with no fissure it
  returns before the map is cleared.
\<close>

definition displayFissureDetails ::
  "int \<Rightarrow> worldState \<Rightarrow> (string \<times> expiry_timer) list \<Rightarrow> (string \<times> expiry_timer) list" where
  "displayFissureDetails now ws timers =
     (let allFissures = (case fissures ws of None \<Rightarrow> [] | Some l \<Rightarrow> l) in
      if length allFissures = 0 then timers
      else fissures_loop now 0 (js_sort compareFissures (filter (isActiveFissure now) allFissures)) [])"

subsection \<open>The page\<close>

text \<open>
  A timer element of the page: its text, its class list, and the class list of the card
  around it that \<open>closest\<close> finds (\<open>None\<close> when there is no such card). Every card holds
  one timer element. The page maps an element id to its element, as
  \<open>document.getElementById\<close> does.
\<close>

record element =
  textContent :: string
  classList :: "string set"
  card :: "string set option"

type_synonym page = "string \<rightharpoonup> element"

definition addClass :: "string \<Rightarrow> element \<Rightarrow> element" where
  "addClass c el = el\<lparr>classList := insert c (classList el)\<rparr>"

definition removeClass :: "string \<Rightarrow> element \<Rightarrow> element" where
  "removeClass c el = el\<lparr>classList := classList el - {c}\<rparr>"

definition addCardClass :: "string \<Rightarrow> element \<Rightarrow> element" where
  "addCardClass c el = el\<lparr>card := map_option (insert c) (card el)\<rparr>"

definition removeCardClass :: "string \<Rightarrow> element \<Rightarrow> element" where
  "removeCardClass c el = el\<lparr>card := map_option (\<lambda>cs. cs - {c}) (card el)\<rparr>"

definition is_space :: "char \<Rightarrow> bool" where
  "is_space c = ((of_char c :: nat) \<in> {9, 10, 11, 12, 13, 32})"

text \<open>\<open>String.prototype.trim\<close>, and \<open>replace(/\s+/g, '-')\<close> (the flag: inside a run).\<close>

definition trim :: "string \<Rightarrow> string" where
  "trim s = rev (dropWhile is_space (rev (dropWhile is_space s)))"

fun replace_ws :: "bool \<Rightarrow> string \<Rightarrow> string" where
  "replace_ws inRun [] = []"
| "replace_ws inRun (c # cs) =
     (if is_space c then (if inRun then replace_ws True cs else CHR ''-'' # replace_ws True cs)
      else c # replace_ws False cs)"

definition show_int :: "int \<Rightarrow> string" where
  "show_int i = (if i < 0 then CHR ''-'' # show_nat (nat (- i)) else show_nat (nat i))"

definition formatTimeFromSeconds :: "int \<Rightarrow> string" where
  "formatTimeFromSeconds secs_in =
     (if secs_in \<le> 0 then ''Expired''
      else
        let hours = secs_in div 3600;
            minutes = (secs_in mod 3600) div 60;
            secs = secs_in mod 60;
            result1 = (if hours > 0 then show_int hours @ ''h '' else '''');
            result2 = (if minutes > 0 then result1 @ show_int minutes @ ''m '' else result1);
            result3 = (if secs > 0 \<or> result2 = '''' then result2 @ show_int secs @ ''s'' else result2)
        in trim result3)"

subsection \<open>\<open>updateTimers\<close>\<close>

definition cycleTimerId :: "string \<Rightarrow> string" where
  "cycleTimerId cycleName = ''timer-'' @ replace_ws False (toLowerCase cycleName)"

text \<open>What each of the three callbacks does to the timer object: \<open>seconds--\<close> while positive.\<close>

definition countDown :: "'t timer_scheme \<Rightarrow> 't timer_scheme" where
  "countDown timerData =
     (if seconds timerData > 0 then timerData\<lparr>seconds := seconds timerData - 1\<rparr> else timerData)"

text \<open>The callback of \<open>cycleTimers.forEach\<close>.\<close>

definition tickCycle :: "string \<Rightarrow> cycle_timer \<Rightarrow> page \<Rightarrow> cycle_timer \<times> page" where
  "tickCycle cycleName timerData doc =
     (if seconds timerData > 0 then
        let timerData' = timerData\<lparr>seconds := seconds timerData - 1\<rparr> in
        (timerData',
         case doc (cycleTimerId cycleName) of
           None \<Rightarrow> doc
         | Some timerElement \<Rightarrow>
             doc(cycleTimerId cycleName \<mapsto>
               (if seconds timerData' \<le> 300 then addClass ''warning'' else removeClass ''warning'')
                 (timerElement\<lparr>textContent := formatTimeFromSeconds (seconds timerData')\<rparr>)))
      else if seconds timerData = 0 then
        (timerData,
         case doc (cycleTimerId cycleName) of
           None \<Rightarrow> doc
         | Some timerElement \<Rightarrow>
             doc(cycleTimerId cycleName \<mapsto>
               addClass ''warning'' (timerElement\<lparr>textContent := ''Cycle changing...''\<rparr>)))
      else (timerData, doc))"

text \<open>
  The callback of \<open>alertTimers.forEach\<close> and of \<open>fissureTimers.forEach\<close>: the two differ
  in the selector of the card only.
\<close>

definition tickExpiry :: "string \<Rightarrow> expiry_timer \<Rightarrow> page \<Rightarrow> expiry_timer \<times> page" where
  "tickExpiry timerId timerData doc =
     (if seconds timerData > 0 then
        let timerData' = timerData\<lparr>seconds := seconds timerData - 1\<rparr> in
        (timerData',
         case doc (timerId @ ''-timer'') of
           None \<Rightarrow> doc
         | Some timerElement \<Rightarrow>
             doc(timerId @ ''-timer'' \<mapsto>
               (if seconds timerData' \<le> 300
                then addCardClass ''expiring-soon'' \<circ> addClass ''warning''
                else removeCardClass ''expiring-soon'' \<circ> removeClass ''warning'')
                 (timerElement\<lparr>textContent := formatTimeFromSeconds (seconds timerData')\<rparr>)))
      else if seconds timerData = 0 then
        (timerData,
         case doc (timerId @ ''-timer'') of
           None \<Rightarrow> doc
         | Some timerElement \<Rightarrow>
             doc(timerId @ ''-timer'' \<mapsto>
               addCardClass ''expired'' (addClass ''warning'' (timerElement\<lparr>textContent := ''Expired''\<rparr>))))
      else (timerData, doc))"

text \<open>\<open>Map.prototype.forEach\<close> with a callback that changes the timer object and the page.\<close>

fun forEach :: "(string \<Rightarrow> 't \<Rightarrow> page \<Rightarrow> 't \<times> page) \<Rightarrow> (string \<times> 't) list \<Rightarrow> page \<Rightarrow>
    (string \<times> 't) list \<times> page" where
  "forEach f [] doc = ([], doc)"
| "forEach f ((k, t) # rest) doc =
     (let (t', doc') = f k t doc;
          (rest', doc'') = forEach f rest doc'
      in ((k, t') # rest', doc''))"

text \<open>
  The state of the application that the timers use. \<open>lastRefresh\<close> is \<open>None\<close> while the
  field is \<open>undefined\<close>. \<open>timeouts\<close> holds the delays, in milliseconds, of the callbacks
  that \<open>updateTimers\<close> has given to \<open>setTimeout\<close> and that have not run yet, and
  \<open>loadsStarted\<close> counts the calls of \<open>loadAlertsData\<close> made by timer callbacks.
  \<open>fissuresExpanded\<close> says whether the activity card of the fissures is on the page with
  the class \<open>expanded\<close>.
\<close>

record app =
  cycleTimers :: "(string \<times> cycle_timer) list"
  alertTimers :: "(string \<times> expiry_timer) list"
  fissureTimers :: "(string \<times> expiry_timer) list"
  pendingRefresh :: bool
  lastRefresh :: "int option"
  currentMainTab :: string
  document :: page
  timeouts :: "int list"
  loadsStarted :: nat
  alertsAPI :: "worldState api"
  alertsError :: "string option"
  currentWorldState :: "worldState option"
  fissuresExpanded :: bool

definition expired :: "(string \<times> 't timer_scheme) list \<Rightarrow> (string \<times> 't timer_scheme) list" where
  "expired timers = filter (\<lambda>(name, timer). seconds timer = 0) timers"

definition updateTimers :: "app \<Rightarrow> app" where
  "updateTimers this =
     (let (cycles, doc1) = forEach tickCycle (cycleTimers this) (document this);
          (alerts, doc2) = forEach tickExpiry (alertTimers this) doc1;
          (fissures, doc3) = forEach tickExpiry (fissureTimers this) doc2;
          this1 = this\<lparr>cycleTimers := cycles, alertTimers := alerts, fissureTimers := fissures,
                       document := doc3\<rparr>;
          expiredCycleTimers = expired cycles;
          expiredAlertTimers = expired alerts;
          expiredFissureTimers = expired fissures
      in if (length expiredCycleTimers > 0 \<or> length expiredAlertTimers > 0
             \<or> length expiredFissureTimers > 0) \<and> \<not> pendingRefresh this
         then this1\<lparr>pendingRefresh := True, timeouts := timeouts this @ [15000]\<rparr>
         else this1)"

text \<open>
  The callback given to \<open>setTimeout\<close> by \<open>updateTimers\<close>, when the oldest one runs: it
  starts \<open>loadAlertsData\<close> on the alerts tab and clears \<open>pendingRefresh\<close> without waiting
  for it. Without a scheduled callback nothing runs.
\<close>

definition refreshTimeout :: "app \<Rightarrow> app" where
  "refreshTimeout this =
     (case timeouts this of
        [] \<Rightarrow> this
      | delay # later \<Rightarrow>
          let this1 = (if currentMainTab this = ''alerts''
                       then this\<lparr>loadsStarted := loadsStarted this + 1\<rparr> else this)
          in this1\<lparr>pendingRefresh := False, timeouts := later\<rparr>)"

subsection \<open>The refresh policy (\<open>startAlertsRefresh\<close>, \<open>loadAlertsData\<close>)\<close>

definition hasActiveTimers :: "app \<Rightarrow> bool" where
  "hasActiveTimers this =
     list_ex (\<lambda>timer. seconds timer > 0 \<and> seconds timer < 7200) (map snd (cycleTimers this))"

text \<open>\<open>!this.lastRefresh\<close> holds for \<open>undefined\<close> and for the number 0.\<close>

definition shouldRefresh :: "int \<Rightarrow> app \<Rightarrow> bool" where
  "shouldRefresh now this =
     (\<not> hasActiveTimers this
      \<or> (case lastRefresh this of None \<Rightarrow> True | Some l \<Rightarrow> l = 0)
      \<or> (case lastRefresh this of None \<Rightarrow> False | Some l \<Rightarrow> now - l > 120000))"

text \<open>The callback of the one minute interval.\<close>

definition refreshCheck :: "int \<Rightarrow> app \<Rightarrow> app" where
  "refreshCheck now this =
     (if shouldRefresh now this then this\<lparr>loadsStarted := loadsStarted this + 1\<rparr> else this)"

definition alerts_baseURL :: string where
  "alerts_baseURL = ''https://api.warframestat.us/pc''"

text \<open>
  \<open>displayActivities\<close>, as far as it reaches the timers: the world state is kept for the
  detail views and the cards are rendered anew, the fissure card only when the world state
  lists a fissure. A card that was expanded and is rendered again has its details filled
  again, which for the fissures is \<open>displayFissureDetails\<close>; a card that is not rendered
  again is expanded no more. The details of the other cards hold no timer and are taken to
  render without error. The first argument says whether the container element exists.
\<close>

definition displayActivities :: "bool \<Rightarrow> int \<Rightarrow> worldState \<Rightarrow> app \<Rightarrow> app" where
  "displayActivities activitiesContainer now ws this =
     (if \<not> activitiesContainer then this
      else
        let this1 = this\<lparr>currentWorldState := Some ws\<rparr>;
            hasFissures = (case fissures ws of None \<Rightarrow> False | Some l \<Rightarrow> length l > 0)
        in if fissuresExpanded this \<and> hasFissures
           then this1\<lparr>fissureTimers := displayFissureDetails now ws (fissureTimers this)\<rparr>
           else this1\<lparr>fissuresExpanded := False\<rparr>)"

text \<open>
  \<open>toggleActivityDetails('fissures')\<close>, a click on the fissure card of the page: a hidden card is filled
  by \<open>loadActivityDetails\<close>, which does nothing without a stored world state, and is
  expanded; an expanded card is hidden.
\<close>

definition toggleFissureDetails :: "int \<Rightarrow> app \<Rightarrow> app" where
  "toggleFissureDetails now this =
     (if \<not> fissuresExpanded this then
        (case currentWorldState this of
           None \<Rightarrow> this
         | Some ws \<Rightarrow> this\<lparr>fissureTimers := displayFissureDetails now ws (fissureTimers this)\<rparr>)
          \<lparr>fissuresExpanded := True\<rparr>
      else this\<lparr>fissuresExpanded := False\<rparr>)"



text \<open>
  The ids of the elements that the callbacks of \<open>updateTimers\<close> write, one for each tracked
  timer, in the order of the three loops.
\<close>

definition timerElementIds :: "app \<Rightarrow> string list" where
  "timerElementIds this =
     map (\<lambda>(name, timer). cycleTimerId name) (cycleTimers this)
     @ map (\<lambda>(name, timer). name @ ''-timer'') (alertTimers this)
     @ map (\<lambda>(name, timer). name @ ''-timer'') (fissureTimers this)"

text \<open>Whether one of the three maps holds a timer at 0, as \<open>updateTimers\<close> checks it.\<close>

definition anyExpired :: "app \<Rightarrow> bool" where
  "anyExpired this =
     (length (expired (cycleTimers this)) > 0 \<or> length (expired (alertTimers this)) > 0
      \<or> length (expired (fissureTimers this)) > 0)"

text \<open>
  The refresh rule in the words of the specification, for comparison: a refresh is due
  when none has occurred, or more than two minutes have passed since the last one, or no
  tracked timer of any kind has between 0 and 7200 seconds left.
\<close>

definition spec_refresh_due :: "int \<Rightarrow> app \<Rightarrow> bool" where
  "spec_refresh_due now this =
     (lastRefresh this = None
      \<or> (case lastRefresh this of None \<Rightarrow> False | Some l \<Rightarrow> now - l > 120000)
      \<or> \<not> list_ex (\<lambda>s. 0 < s \<and> s < 7200)
            (map (\<lambda>(name, t). seconds t) (cycleTimers this)
             @ map (\<lambda>(name, t). seconds t) (alertTimers this)
             @ map (\<lambda>(name, t). seconds t) (fissureTimers this)))"

text \<open>Any number of ticks of the timer interval, with nothing else in between.\<close>

definition ticks :: "nat \<Rightarrow> app \<Rightarrow> app" where
  "ticks n this = (updateTimers ^^ n) this"

section \<open>Example inputs\<close>

definition online_sell_50 :: order where
  "online_sell_50 =
     \<lparr>user = \<lparr>ingame_name = ''Ordis'', status = ''online''\<rparr>, order_type = ''sell'',
      platinum = 50, quantity = 1\<rparr>"

definition ingame_sell_60 :: order where
  "ingame_sell_60 =
     \<lparr>user = \<lparr>ingame_name = ''Lotus'', status = ''ingame''\<rparr>, order_type = ''sell'',
      platinum = 60, quantity = 1\<rparr>"

definition offline_buy_70 :: order where
  "offline_buy_70 =
     \<lparr>user = \<lparr>ingame_name = ''Teshin'', status = ''offline''\<rparr>, order_type = ''buy'',
      platinum = 70, quantity = 2\<rparr>"

definition ingame_buy_40 :: order where
  "ingame_buy_40 =
     \<lparr>user = \<lparr>ingame_name = ''Darvo'', status = ''ingame''\<rparr>, order_type = ''buy'',
      platinum = 40, quantity = 3\<rparr>"

text \<open>A server that answers 503, one that is unreachable, and one that answers 200.\<close>

definition service_unavailable :: "nat network" where
  "service_unavailable url =
     Inr \<lparr>http_status = 503, statusText = ''Service Unavailable'', json_body = Inl (Error ''no body'')\<rparr>"

definition unreachable :: "'d network" where
  "unreachable url = Inl (TypeError ''Failed to fetch'')"

definition answers :: "'d \<Rightarrow> 'd network" where
  "answers d url = Inr \<lparr>http_status = 200, statusText = ''OK'', json_body = Inr d\<rparr>"

text \<open>A market cache and a world state cache that hold the payload 7, fetched at time 0.\<close>

definition market_with_entry :: "nat api" where
  "market_with_entry =
     WarframeMarketAPI\<lparr>cache := [''https://api.warframe.market/v1/items'' \<mapsto> \<lparr>data = 7, timestamp = 0\<rparr>]\<rparr>"

definition alerts_with_entry :: "nat api" where
  "alerts_with_entry =
     WarframeAlertsAPI\<lparr>cache := [alerts_baseURL \<mapsto> \<lparr>data = 7, timestamp = 0\<rparr>]\<rparr>"

text \<open>An item catalogue of three items, and the response that carries it.\<close>

definition catalogue :: json where
  "catalogue =
     JObj [(''payload'', JObj [(''items'',
       JArr [JObj [(''item_name'', JStr ''Rhino Prime Set''), (''url_name'', JStr ''rhino_prime_set'')],
             JObj [(''item_name'', JStr ''Serration''), (''url_name'', JStr ''serration'')],
             JObj [(''item_name'', JStr ''Mag Prime Set''), (''url_name'', JStr ''mag_prime_set'')]])])]"



definition tracked_earth :: "int \<Rightarrow> cycle_timer" where
  "tracked_earth s = \<lparr>seconds = s, state = PStr ''day'', isDay = PBool True\<rparr>"

definition tracked_alert :: "int \<Rightarrow> expiry_timer" where
  "tracked_alert s = \<lparr>seconds = s, expiry = 150000\<rparr>"

text \<open>A page with the timer elements of the Earth cycle and of the first alert.\<close>

definition example_page :: page where
  "example_page =
     [''timer-earth'' \<mapsto> \<lparr>textContent = ''2s'', classList = {''cycle-timer''}, card = None\<rparr>,
      ''alert-0-timer'' \<mapsto>
        \<lparr>textContent = ''1m 40s'', classList = {''alert-timer''}, card = Some {''alert-card''}\<rparr>]"

text \<open>
  The application on the alerts tab, last refreshed at 1000000 ms, with no refresh
  scheduled, tracking the Earth cycle and one alert with the given seconds left.
\<close>

definition example_app :: "int \<Rightarrow> int \<Rightarrow> app" where
  "example_app earth_seconds alert_seconds =
     \<lparr>cycleTimers = [(''Earth'', tracked_earth earth_seconds)],
      alertTimers = [(''alert-0'', tracked_alert alert_seconds)],
      fissureTimers = [],
      pendingRefresh = False,
      lastRefresh = Some 1000000,
      currentMainTab = ''alerts'',
      document = example_page,
      timeouts = [],
      loadsStarted = 0,
      alertsAPI = WarframeAlertsAPI,
      alertsError = None,
      currentWorldState = None,
      fissuresExpanded = False\<rparr>"

section \<open>The ranking\<close>

subsection \<open>The sort\<close>

lemma mset_insert_by: "mset (insert_by cmp x ys) = add_mset x (mset ys)"
  by (induction ys) auto

lemma mset_js_sort: "mset (js_sort cmp xs) = mset xs"
  unfolding js_sort_def by (induction xs) (auto simp: mset_insert_by)

lemma set_js_sort: "set (js_sort cmp xs) = set xs"
  using mset_js_sort [of cmp xs] by (metis set_mset_mset)

lemma length_js_sort: "length (js_sort cmp xs) = length xs"
  using mset_js_sort [of cmp xs] by (metis size_mset)

text \<open>
  With a comparator that is total and transitive as a preorder, the result is ordered by it.
\<close>

lemma sorted_insert_by:
  assumes total: "\<And>a b. 0 < cmp a b \<Longrightarrow> cmp b a \<le> 0"
    and trans: "\<And>a b c. cmp a b \<le> 0 \<Longrightarrow> cmp b c \<le> 0 \<Longrightarrow> cmp a c \<le> 0"
    and "sorted_wrt (\<lambda>a b. cmp a b \<le> 0) ys"
  shows "sorted_wrt (\<lambda>a b. cmp a b \<le> 0) (insert_by cmp x ys)"
  using assms(3)
proof (induction ys)
  case Nil
  then show ?case by simp
next
  case (Cons y ys)
  show ?case
  proof (cases "cmp x y \<le> 0")
    case True
    then have "\<forall>z \<in> set ys. cmp x z \<le> 0"
      using Cons.prems trans by auto
    with True Cons.prems show ?thesis by simp
  next
    case False
    then have "cmp y x \<le> 0" using total [of x y] by simp
    moreover have "set (insert_by cmp x ys) = insert x (set ys)"
      using mset_insert_by [of cmp x ys] by (metis set_mset_add_mset_insert set_mset_mset)
    ultimately show ?thesis using False Cons by auto
  qed
qed

lemma sorted_js_sort:
  assumes total: "\<And>a b. 0 < cmp a b \<Longrightarrow> cmp b a \<le> 0"
    and trans: "\<And>a b c. cmp a b \<le> 0 \<Longrightarrow> cmp b c \<le> 0 \<Longrightarrow> cmp a c \<le> 0"
  shows "sorted_wrt (\<lambda>a b. cmp a b \<le> 0) (js_sort cmp xs)"
  unfolding js_sort_def
  by (induction xs) (auto intro: sorted_insert_by total trans)

subsection \<open>The comparator of \<open>displayOrders\<close>\<close>

lemma sortWithPriority_total:
  "0 < sortWithPriority a b asc \<Longrightarrow> sortWithPriority b a asc \<le> 0"
  by (auto simp: sortWithPriority_def Let_def split: if_splits)

lemma sortWithPriority_trans:
  "sortWithPriority a b asc \<le> 0 \<Longrightarrow> sortWithPriority b c asc \<le> 0 \<Longrightarrow>
   sortWithPriority a c asc \<le> 0"
  by (auto simp: sortWithPriority_def Let_def split: if_splits)

lemma sortWithPriority_le_0_iff:
  "sortWithPriority a b asc \<le> 0 \<longleftrightarrow>
     statusPriority (status (user b)) < statusPriority (status (user a)) \<or>
     statusPriority (status (user a)) = statusPriority (status (user b)) \<and>
       (if asc then platinum a \<le> platinum b else platinum b \<le> platinum a)"
  by (auto simp: sortWithPriority_def Let_def)

lemma sorted_sellOrders:
  "sorted_wrt (\<lambda>a b. sortWithPriority a b True \<le> 0) (sellOrders orderFilter orders)"
  unfolding sellOrders_def
  by (rule sorted_js_sort) (auto intro: sortWithPriority_total sortWithPriority_trans)

lemma sorted_buyOrders:
  "sorted_wrt (\<lambda>a b. sortWithPriority a b False \<le> 0) (buyOrders orderFilter orders)"
  unfolding buyOrders_def
  by (rule sorted_js_sort) (auto intro: sortWithPriority_total sortWithPriority_trans)

lemma onlineOrders_filter:
  "onlineOrders orderFilter orders =
     filter (\<lambda>ord. (status (user ord) = ''ingame'' \<or> status (user ord) = ''online'') \<and>
                   (if orderFilter = ''buy'' then order_type ord = ''buy''
                    else if orderFilter = ''sell'' then order_type ord = ''sell'' else True))
       orders"
  by (simp add: onlineOrders_def Let_def)

lemma mset_sellOrders:
  "mset (sellOrders orderFilter orders) =
     mset (filter (\<lambda>ord. (status (user ord) = ''ingame'' \<or> status (user ord) = ''online'') \<and>
                          order_type ord = ''sell'' \<and> orderFilter \<noteq> ''buy'') orders)"
proof -
  have "filter (\<lambda>ord. order_type ord = ''sell'') (onlineOrders orderFilter orders) =
        filter (\<lambda>ord. (status (user ord) = ''ingame'' \<or> status (user ord) = ''online'') \<and>
                      order_type ord = ''sell'' \<and> orderFilter \<noteq> ''buy'') orders"
    unfolding onlineOrders_filter filter_filter
    by (rule filter_cong) auto
  then show ?thesis by (simp add: sellOrders_def mset_js_sort)
qed

lemma mset_buyOrders:
  "mset (buyOrders orderFilter orders) =
     mset (filter (\<lambda>ord. (status (user ord) = ''ingame'' \<or> status (user ord) = ''online'') \<and>
                          order_type ord = ''buy'' \<and> orderFilter \<noteq> ''sell'') orders)"
proof -
  have "filter (\<lambda>ord. order_type ord = ''buy'') (onlineOrders orderFilter orders) =
        filter (\<lambda>ord. (status (user ord) = ''ingame'' \<or> status (user ord) = ''online'') \<and>
                      order_type ord = ''buy'' \<and> orderFilter \<noteq> ''sell'') orders"
    unfolding onlineOrders_filter filter_filter
    by (rule filter_cong) auto
  then show ?thesis by (simp add: buyOrders_def mset_js_sort)
qed

lemma filter_online_cong:
  assumes "\<forall>ord \<in> set orders. status (user ord) \<in> {''ingame'', ''online'', ''offline''}"
  shows "filter (\<lambda>ord. (status (user ord) = ''ingame'' \<or> status (user ord) = ''online'') \<and> Q ord) orders
       = filter (\<lambda>ord. status (user ord) \<noteq> ''offline'' \<and> Q ord) orders"
proof (rule filter_cong)
  fix ord assume "ord \<in> set orders"
  with assms have "status (user ord) = ''ingame'' \<or> status (user ord) = ''online''
      \<or> status (user ord) = ''offline''"
    by blast
  then show "((status (user ord) = ''ingame'' \<or> status (user ord) = ''online'') \<and> Q ord) =
             (status (user ord) \<noteq> ''offline'' \<and> Q ord)"
    by auto
qed simp


subsection \<open>Claims on the ranking\<close>

text \<open>
  C6, as amended. Within each displayed side the order is first by user status priority
  (ingame before online; no other status is listed) and, among orders of equal status,
  by price: ascending platinum on the sell side, descending platinum on the buy side.
\<close>

theorem ranked_by_status_then_price:
  "sorted_wrt (\<lambda>a b. statusPriority (status (user b)) < statusPriority (status (user a)) \<or>
                     statusPriority (status (user a)) = statusPriority (status (user b)) \<and>
                     platinum a \<le> platinum b)
     (rankedSell orderFilter orders) \<and>
   sorted_wrt (\<lambda>a b. statusPriority (status (user b)) < statusPriority (status (user a)) \<or>
                     statusPriority (status (user a)) = statusPriority (status (user b)) \<and>
                     platinum b \<le> platinum a)
     (rankedBuy orderFilter orders) \<and>
   list_all (\<lambda>ord. status (user ord) = ''ingame'' \<or> status (user ord) = ''online'')
     (rankedSell orderFilter orders @ rankedBuy orderFilter orders)"
proof -
  have sell: "sorted_wrt (\<lambda>a b. sortWithPriority a b True \<le> 0) (rankedSell orderFilter orders)"
    unfolding rankedSell_def using sorted_sellOrders by (rule sorted_wrt_take)
  have buy: "sorted_wrt (\<lambda>a b. sortWithPriority a b False \<le> 0) (rankedBuy orderFilter orders)"
    unfolding rankedBuy_def using sorted_buyOrders by (rule sorted_wrt_take)
  have "set (rankedSell orderFilter orders) \<subseteq> set (sellOrders orderFilter orders)"
    and "set (rankedBuy orderFilter orders) \<subseteq> set (buyOrders orderFilter orders)"
    unfolding rankedSell_def rankedBuy_def by (rule set_take_subset)+
  moreover have "set (sellOrders orderFilter orders) \<subseteq> set (onlineOrders orderFilter orders)"
    and "set (buyOrders orderFilter orders) \<subseteq> set (onlineOrders orderFilter orders)"
    by (auto simp: sellOrders_def buyOrders_def set_js_sort)
  moreover have "\<forall>ord \<in> set (onlineOrders orderFilter orders).
      status (user ord) = ''ingame'' \<or> status (user ord) = ''online''"
    unfolding onlineOrders_filter by simp
  ultimately have listed: "list_all (\<lambda>ord. status (user ord) = ''ingame'' \<or> status (user ord) = ''online'')
     (rankedSell orderFilter orders @ rankedBuy orderFilter orders)"
    unfolding list_all_iff by auto
  from sell buy listed show ?thesis
    by (simp add: sortWithPriority_le_0_iff)
qed

theorem ranked_by_status_then_price_witness:
  "sorted_wrt (\<lambda>a b. statusPriority (status (user b)) < statusPriority (status (user a)) \<or>
                     statusPriority (status (user a)) = statusPriority (status (user b)) \<and>
                     platinum a \<le> platinum b)
     (rankedSell ''all'' [online_sell_50, ingame_sell_60, offline_buy_70, ingame_buy_40]) \<and>
   rankedSell ''all'' [online_sell_50, ingame_sell_60, offline_buy_70, ingame_buy_40]
     = [ingame_sell_60, online_sell_50]"
  using ranked_by_status_then_price
    [of "''all''" "[online_sell_50, ingame_sell_60, offline_buy_70, ingame_buy_40]"]
  by (simp add: rankedSell_def sellOrders_def onlineOrders_def js_sort_def sortWithPriority_def
      statusPriority_def online_sell_50_def ingame_sell_60_def offline_buy_70_def ingame_buy_40_def)

text \<open>
  C6 as stated fails: with an online seller at 50 platinum and an ingame seller at 60, the
  sell side lists 60 before 50, so it is not in ascending order of platinum.
\<close>

theorem price_first_counterexample:
  "\<not> sorted (map platinum (rankedSell ''all'' [online_sell_50, ingame_sell_60]))"
  by (simp add: rankedSell_def sellOrders_def onlineOrders_def js_sort_def sortWithPriority_def
      statusPriority_def online_sell_50_def ingame_sell_60_def)

text \<open>
  C7. For the orders \<open>[{status: online, sell, 50}, {status: ingame, sell, 60}]\<close> the ranked
  sell list is the ingame order at 60 followed by the online order at 50, under the filter
  \<open>all\<close> and under the filter \<open>sell\<close>, and these two rows are what \<open>displayOrders\<close> renders.
  The fields the scenario leaves open are arbitrary.
\<close>

theorem priority_beats_price_scenario:
  "rankedSell ''all''
     [\<lparr>user = \<lparr>ingame_name = n1, status = ''online''\<rparr>, order_type = ''sell'', platinum = 50, quantity = q1\<rparr>,
      \<lparr>user = \<lparr>ingame_name = n2, status = ''ingame''\<rparr>, order_type = ''sell'', platinum = 60, quantity = q2\<rparr>]
   = [\<lparr>user = \<lparr>ingame_name = n2, status = ''ingame''\<rparr>, order_type = ''sell'', platinum = 60, quantity = q2\<rparr>,
      \<lparr>user = \<lparr>ingame_name = n1, status = ''online''\<rparr>, order_type = ''sell'', platinum = 50, quantity = q1\<rparr>] \<and>
   rankedSell ''sell''
     [\<lparr>user = \<lparr>ingame_name = n1, status = ''online''\<rparr>, order_type = ''sell'', platinum = 50, quantity = q1\<rparr>,
      \<lparr>user = \<lparr>ingame_name = n2, status = ''ingame''\<rparr>, order_type = ''sell'', platinum = 60, quantity = q2\<rparr>]
   = [\<lparr>user = \<lparr>ingame_name = n2, status = ''ingame''\<rparr>, order_type = ''sell'', platinum = 60, quantity = q2\<rparr>,
      \<lparr>user = \<lparr>ingame_name = n1, status = ''online''\<rparr>, order_type = ''sell'', platinum = 50, quantity = q1\<rparr>] \<and>
   displayOrders True ''all''
     [\<lparr>user = \<lparr>ingame_name = n1, status = ''online''\<rparr>, order_type = ''sell'', platinum = 50, quantity = q1\<rparr>,
      \<lparr>user = \<lparr>ingame_name = n2, status = ''ingame''\<rparr>, order_type = ''sell'', platinum = 60, quantity = q2\<rparr>]
   = Rows
     [\<lparr>user = \<lparr>ingame_name = n2, status = ''ingame''\<rparr>, order_type = ''sell'', platinum = 60, quantity = q2\<rparr>,
      \<lparr>user = \<lparr>ingame_name = n1, status = ''online''\<rparr>, order_type = ''sell'', platinum = 50, quantity = q1\<rparr>]"
  by (simp add: displayOrders_def rankedSell_def rankedBuy_def sellOrders_def buyOrders_def
      onlineOrders_def js_sort_def sortWithPriority_def statusPriority_def)

text \<open>
  C8. When every user status is one of ingame, online, offline: the sell side before
  truncation is a rearrangement of exactly the input orders that are not offline, are sell
  orders and pass the type filter (every filter but \<open>buy\<close> lets sell orders through); the
  same holds for the buy side; each displayed side is the first ten of its list, so it has
  ten entries or all of them if there are fewer; and every displayed order is an input order.
\<close>

theorem ranking_filters_and_truncates:
  assumes "\<forall>ord \<in> set orders. status (user ord) \<in> {''ingame'', ''online'', ''offline''}"
  shows "mset (sellOrders orderFilter orders) =
           mset (filter (\<lambda>ord. status (user ord) \<noteq> ''offline'' \<and> order_type ord = ''sell'' \<and>
                                orderFilter \<noteq> ''buy'') orders) \<and>
         mset (buyOrders orderFilter orders) =
           mset (filter (\<lambda>ord. status (user ord) \<noteq> ''offline'' \<and> order_type ord = ''buy'' \<and>
                                orderFilter \<noteq> ''sell'') orders) \<and>
         rankedSell orderFilter orders = take 10 (sellOrders orderFilter orders) \<and>
         rankedBuy orderFilter orders = take 10 (buyOrders orderFilter orders) \<and>
         length (rankedSell orderFilter orders) =
           min 10 (length (filter (\<lambda>ord. status (user ord) \<noteq> ''offline'' \<and> order_type ord = ''sell'' \<and>
                                orderFilter \<noteq> ''buy'') orders)) \<and>
         length (rankedBuy orderFilter orders) =
           min 10 (length (filter (\<lambda>ord. status (user ord) \<noteq> ''offline'' \<and> order_type ord = ''buy'' \<and>
                                orderFilter \<noteq> ''sell'') orders)) \<and>
         set (rankedSell orderFilter orders) \<union> set (rankedBuy orderFilter orders) \<subseteq> set orders"
proof -
  let ?S = "filter (\<lambda>ord. status (user ord) \<noteq> ''offline'' \<and> order_type ord = ''sell'' \<and>
                                orderFilter \<noteq> ''buy'') orders"
  let ?B = "filter (\<lambda>ord. status (user ord) \<noteq> ''offline'' \<and> order_type ord = ''buy'' \<and>
                                orderFilter \<noteq> ''sell'') orders"
  have sell: "mset (sellOrders orderFilter orders) = mset ?S"
    using mset_sellOrders [of orderFilter orders]
      filter_online_cong [OF assms, of "\<lambda>ord. order_type ord = ''sell'' \<and> orderFilter \<noteq> ''buy''"]
    by simp
  have buy: "mset (buyOrders orderFilter orders) = mset ?B"
    using mset_buyOrders [of orderFilter orders]
      filter_online_cong [OF assms, of "\<lambda>ord. order_type ord = ''buy'' \<and> orderFilter \<noteq> ''sell''"]
    by simp
  have len_sell: "length (sellOrders orderFilter orders) = length ?S"
    using arg_cong [OF sell, of size] by (simp only: size_mset)
  have len_buy: "length (buyOrders orderFilter orders) = length ?B"
    using arg_cong [OF buy, of size] by (simp only: size_mset)
  have "set (sellOrders orderFilter orders) = set ?S"
    using arg_cong [OF sell, of set_mset] by (simp only: set_mset_mset)
  then have "set (sellOrders orderFilter orders) \<subseteq> set orders"
    by simp
  moreover have "set (rankedSell orderFilter orders) \<subseteq> set (sellOrders orderFilter orders)"
    unfolding rankedSell_def by (rule set_take_subset)
  ultimately have sub_sell: "set (rankedSell orderFilter orders) \<subseteq> set orders"
    by (rule order.trans [rotated])
  have "set (buyOrders orderFilter orders) = set ?B"
    using arg_cong [OF buy, of set_mset] by (simp only: set_mset_mset)
  then have "set (buyOrders orderFilter orders) \<subseteq> set orders"
    by simp
  moreover have "set (rankedBuy orderFilter orders) \<subseteq> set (buyOrders orderFilter orders)"
    unfolding rankedBuy_def by (rule set_take_subset)
  ultimately have sub_buy: "set (rankedBuy orderFilter orders) \<subseteq> set orders"
    by (rule order.trans [rotated])
  have l1: "length (rankedSell orderFilter orders) = min 10 (length ?S)"
    unfolding rankedSell_def using len_sell by (simp add: min.commute)
  have l2: "length (rankedBuy orderFilter orders) = min 10 (length ?B)"
    unfolding rankedBuy_def using len_buy by (simp add: min.commute)
  have r1: "rankedSell orderFilter orders = take 10 (sellOrders orderFilter orders)"
    by (simp only: rankedSell_def)
  have r2: "rankedBuy orderFilter orders = take 10 (buyOrders orderFilter orders)"
    by (simp only: rankedBuy_def)
  from sub_sell sub_buy have sub: "set (rankedSell orderFilter orders) \<union> set (rankedBuy orderFilter orders) \<subseteq> set orders"
    by (rule Un_least)
  from sell buy r1 r2 l1 l2 sub show ?thesis by (intro conjI)
qed

theorem ranking_filters_and_truncates_witness:
  "set (map (\<lambda>ord. status (user ord)) [online_sell_50, ingame_sell_60, offline_buy_70, ingame_buy_40])
     \<subseteq> {''ingame'', ''online'', ''offline''} \<and>
   mset (buyOrders ''all'' [online_sell_50, ingame_sell_60, offline_buy_70, ingame_buy_40]) =
     mset (filter (\<lambda>ord. status (user ord) \<noteq> ''offline'' \<and> order_type ord = ''buy'' \<and>
                         ''all'' \<noteq> ''sell'')
             [online_sell_50, ingame_sell_60, offline_buy_70, ingame_buy_40]) \<and>
   rankedBuy ''all'' [online_sell_50, ingame_sell_60, offline_buy_70, ingame_buy_40] = [ingame_buy_40]"
proof -
  have h: "\<forall>ord \<in> set [online_sell_50, ingame_sell_60, offline_buy_70, ingame_buy_40].
      status (user ord) \<in> {''ingame'', ''online'', ''offline''}"
    by (simp add: online_sell_50_def ingame_sell_60_def offline_buy_70_def ingame_buy_40_def)
  have r: "rankedBuy ''all'' [online_sell_50, ingame_sell_60, offline_buy_70, ingame_buy_40]
      = [ingame_buy_40]"
    by (simp add: rankedBuy_def buyOrders_def onlineOrders_def js_sort_def
        online_sell_50_def ingame_sell_60_def offline_buy_70_def ingame_buy_40_def)
  have s: "set (map (\<lambda>ord. status (user ord)) [online_sell_50, ingame_sell_60, offline_buy_70, ingame_buy_40])
     \<subseteq> {''ingame'', ''online'', ''offline''}"
    using h by auto
  show ?thesis
    using s r ranking_filters_and_truncates [OF h, of "''all''"] by blast
qed

section \<open>The caches\<close>

lemma try_fetch_fails:
  assumes "(\<exists>e. net url = Inl e) \<or> (\<exists>r. net url = Inr r \<and> \<not> ok r)"
  shows "\<exists>err. try_fetch net url = Inl err"
  using assms by (auto simp: try_fetch_def)

lemma market_fresh:
  "cache this url = Some c \<Longrightarrow> now - timestamp c < cacheTimeout this \<Longrightarrow>
   market_fetchWithCache net now url this = (Inr (data c), this)"
  by (simp add: market_fetchWithCache_def is_fresh_def)

lemma alerts_fresh:
  "cache this url = Some c \<Longrightarrow> now - timestamp c < cacheTimeout this \<Longrightarrow>
   alerts_fetchWithCache net now url this = (Inr (data c), this)"
  by (simp add: alerts_fetchWithCache_def is_fresh_def)

lemma market_failed:
  "try_fetch net url = Inl err \<Longrightarrow>
   fst (market_fetchWithCache net now url this) =
     (case cache this url of Some c \<Rightarrow> Inr (data c) | None \<Rightarrow> Inl err)"
  by (simp add: market_fetchWithCache_def is_fresh_def Let_def split: option.splits)

lemma alerts_failed:
  "try_fetch net url = Inl err \<Longrightarrow> \<not> is_fresh now (cacheTimeout this) (cache this url) \<Longrightarrow>
   alerts_fetchWithCache net now url this =
     (Inl (Error (''Failed to fetch alerts data: '' @ message err)),
      this\<lparr>requests := requests this @ [url]\<rparr>)"
  by (simp add: alerts_fetchWithCache_def Let_def)

lemma market_miss_ok:
  "\<not> is_fresh now (cacheTimeout this) (cache this url) \<Longrightarrow> try_fetch net url = Inr d \<Longrightarrow>
   market_fetchWithCache net now url this =
     (Inr d, this\<lparr>requests := requests this @ [url],
                 cache := (cache this)(url \<mapsto> \<lparr>data = d, timestamp = now\<rparr>)\<rparr>)"
  by (simp add: market_fetchWithCache_def Let_def)

lemma alerts_miss_ok:
  "\<not> is_fresh now (cacheTimeout this) (cache this url) \<Longrightarrow> try_fetch net url = Inr d \<Longrightarrow>
   alerts_fetchWithCache net now url this =
     (Inr d, this\<lparr>requests := requests this @ [url],
                 cache := (cache this)(url \<mapsto> \<lparr>data = d, timestamp = now\<rparr>)\<rparr>)"
  by (simp add: alerts_fetchWithCache_def Let_def)

lemma market_miss_requests:
  "\<not> is_fresh now (cacheTimeout this) (cache this url) \<Longrightarrow>
   requests (snd (market_fetchWithCache net now url this)) = requests this @ [url]"
  by (simp add: market_fetchWithCache_def Let_def split: sum.splits option.splits)

lemma alerts_miss_requests:
  "\<not> is_fresh now (cacheTimeout this) (cache this url) \<Longrightarrow>
   requests (snd (alerts_fetchWithCache net now url this)) = requests this @ [url]"
  by (simp add: alerts_fetchWithCache_def Let_def split: sum.splits option.splits)

lemma market_failed_Some:
  "try_fetch net url = Inl err \<Longrightarrow> cache this url = Some c \<Longrightarrow>
   fst (market_fetchWithCache net now url this) = Inr (data c)"
  by (simp add: market_failed)

lemma market_failed_None:
  "try_fetch net url = Inl err \<Longrightarrow> cache this url = None \<Longrightarrow>
   fst (market_fetchWithCache net now url this) = Inl err"
  by (simp add: market_failed)

lemma market_fresh_after_ok:
  assumes "\<not> is_fresh t1 (cacheTimeout this) (cache this url)" and "try_fetch net1 url = Inr d"
    and "t2 - t1 < cacheTimeout this"
  shows "market_fetchWithCache net2 t2 url (snd (market_fetchWithCache net1 t1 url this)) =
           (Inr d, snd (market_fetchWithCache net1 t1 url this))"
proof -
  let ?s1 = "this\<lparr>requests := requests this @ [url],
                 cache := (cache this)(url \<mapsto> \<lparr>data = d, timestamp = t1\<rparr>)\<rparr>"
  have s1: "snd (market_fetchWithCache net1 t1 url this) = ?s1"
    using market_miss_ok [OF assms(1,2)] by simp
  have "market_fetchWithCache net2 t2 url ?s1 = (Inr (data \<lparr>data = d, timestamp = t1\<rparr>), ?s1)"
    by (rule market_fresh) (use assms(3) in simp_all)
  then show ?thesis unfolding s1 by simp
qed

lemma alerts_fresh_after_ok:
  assumes "\<not> is_fresh t1 (cacheTimeout this) (cache this url)" and "try_fetch net1 url = Inr d"
    and "t2 - t1 < cacheTimeout this"
  shows "alerts_fetchWithCache net2 t2 url (snd (alerts_fetchWithCache net1 t1 url this)) =
           (Inr d, snd (alerts_fetchWithCache net1 t1 url this))"
proof -
  let ?s1 = "this\<lparr>requests := requests this @ [url],
                 cache := (cache this)(url \<mapsto> \<lparr>data = d, timestamp = t1\<rparr>)\<rparr>"
  have s1: "snd (alerts_fetchWithCache net1 t1 url this) = ?s1"
    using alerts_miss_ok [OF assms(1,2)] by simp
  have "alerts_fetchWithCache net2 t2 url ?s1 = (Inr (data \<lparr>data = d, timestamp = t1\<rparr>), ?s1)"
    by (rule alerts_fresh) (use assms(3) in simp_all)
  then show ?thesis unfolding s1 by simp
qed

lemma market_stale_after_ok:
  assumes "\<not> is_fresh t1 (cacheTimeout this) (cache this url)" and "try_fetch net1 url = Inr d"
    and "\<not> t3 - t1 < cacheTimeout this"
  shows "requests (snd (market_fetchWithCache net3 t3 url (snd (market_fetchWithCache net1 t1 url this))))
           = requests this @ [url, url]"
proof -
  let ?s1 = "this\<lparr>requests := requests this @ [url],
                 cache := (cache this)(url \<mapsto> \<lparr>data = d, timestamp = t1\<rparr>)\<rparr>"
  have s1: "snd (market_fetchWithCache net1 t1 url this) = ?s1"
    using market_miss_ok [OF assms(1,2)] by simp
  have "\<not> is_fresh t3 (cacheTimeout ?s1) (cache ?s1 url)"
    using assms(3) by (simp add: is_fresh_def)
  then have "requests (snd (market_fetchWithCache net3 t3 url ?s1)) = requests ?s1 @ [url]"
    by (rule market_miss_requests)
  then show ?thesis unfolding s1 by simp
qed

lemma alerts_stale_after_ok:
  assumes "\<not> is_fresh t1 (cacheTimeout this) (cache this url)" and "try_fetch net1 url = Inr d"
    and "\<not> t3 - t1 < cacheTimeout this"
  shows "requests (snd (alerts_fetchWithCache net3 t3 url (snd (alerts_fetchWithCache net1 t1 url this))))
           = requests this @ [url, url]"
proof -
  let ?s1 = "this\<lparr>requests := requests this @ [url],
                 cache := (cache this)(url \<mapsto> \<lparr>data = d, timestamp = t1\<rparr>)\<rparr>"
  have s1: "snd (alerts_fetchWithCache net1 t1 url this) = ?s1"
    using alerts_miss_ok [OF assms(1,2)] by simp
  have "\<not> is_fresh t3 (cacheTimeout ?s1) (cache ?s1 url)"
    using assms(3) by (simp add: is_fresh_def)
  then have "requests (snd (alerts_fetchWithCache net3 t3 url ?s1)) = requests ?s1 @ [url]"
    by (rule alerts_miss_requests)
  then show ?thesis unfolding s1 by simp
qed

lemma filter_throwing_Inr:
  "filter_throwing p xs = Inr ys \<Longrightarrow> ys = filter (\<lambda>x. p x = Inr True) xs"
proof (induction xs arbitrary: ys)
  case Nil
  then show ?case by simp
next
  case (Cons x xs)
  then show ?case by (auto split: sum.splits if_splits)
qed

lemma search_in_Inr:
  assumes "search_in query response = Inr found"
  shows "length found \<le> 10" and "\<forall>item \<in> set found. item_matches query item = Inr True"
proof -
  from assms obtain items filtered where f: "filter_throwing (item_matches query) items = Inr filtered"
    and t: "found = take 10 filtered"
    by (auto simp: search_in_def split: sum.splits option.splits json.splits)
  from t show "length found \<le> 10" by simp
  from f have "filtered = filter (\<lambda>x. item_matches query x = Inr True) items"
    by (rule filter_throwing_Inr)
  then have "\<forall>item \<in> set filtered. item_matches query item = Inr True" by simp
  then show "\<forall>item \<in> set found. item_matches query item = Inr True"
    unfolding t by (meson in_set_takeD)
qed

lemma searchItems_cases:
  "(fst (searchItems e net now query this) = [] \<or>
    (\<exists>response. fst (getItems e net now this) = Inr response \<and>
        search_in query response = Inr (fst (searchItems e net now query this)))) \<and>
   snd (searchItems e net now query this) = snd (getItems e net now this)"
  by (cases "getItems e net now this") (auto simp: searchItems_def split: sum.splits)

lemma searchItems_getItems_failed:
  "fst (getItems e net now this) = Inl err \<Longrightarrow> fst (searchItems e net now query this) = []"
  by (cases "getItems e net now this") (auto simp: searchItems_def split: sum.splits)

lemma show_nat_503: "show_nat 503 = ''503''" by code_simp

lemma search_prime: "fst (searchItems True (answers catalogue) 1000 ''Prime'' WarframeMarketAPI) =
     [JObj [(''item_name'', JStr ''Rhino Prime Set''), (''url_name'', JStr ''rhino_prime_set'')],
      JObj [(''item_name'', JStr ''Mag Prime Set''), (''url_name'', JStr ''mag_prime_set'')]]"
  by code_simp

subsection \<open>Claims on the caches\<close>

text \<open>
  C1, as amended. When the network request fails (the transport fails or the status is not
  2xx), the market cache returns the payload of the entry it holds for the URL, however old,
  and passes the error on only when it holds none. The world state cache has no such
  fallback: whenever it makes a request and the request fails, it raises an error
  "Failed to fetch alerts data: ..." made from the message of the failure, entry or not.
\<close>

theorem market_falls_back_alerts_raise:
  assumes "(\<exists>e. net url = Inl e) \<or> (\<exists>r. net url = Inr r \<and> \<not> ok r)"
  shows "\<exists>err. try_fetch net url = Inl err \<and>
           (\<forall>c. cache this url = Some c \<longrightarrow>
                  fst (market_fetchWithCache net now url this) = Inr (data c)) \<and>
           (cache this url = None \<longrightarrow> fst (market_fetchWithCache net now url this) = Inl err) \<and>
           (\<not> is_fresh now (cacheTimeout this') (cache this' url) \<longrightarrow>
              fst (alerts_fetchWithCache net now url this') =
                Inl (Error (''Failed to fetch alerts data: '' @ message err)))"
proof -
  from assms obtain err where err: "try_fetch net url = Inl err"
    using try_fetch_fails by blast
  show ?thesis
  proof (intro exI conjI allI impI)
    show "try_fetch net url = Inl err" by (rule err)
  next
    fix c assume "cache this url = Some c"
    with err show "fst (market_fetchWithCache net now url this) = Inr (data c)"
      by (rule market_failed_Some)
  next
    assume "cache this url = None"
    with err show "fst (market_fetchWithCache net now url this) = Inl err"
      by (rule market_failed_None)
  next
    assume "\<not> is_fresh now (cacheTimeout this') (cache this' url)"
    with err have "alerts_fetchWithCache net now url this' =
       (Inl (Error (''Failed to fetch alerts data: '' @ message err)),
        this'\<lparr>requests := requests this' @ [url]\<rparr>)"
      by (rule alerts_failed)
    then show "fst (alerts_fetchWithCache net now url this') =
                Inl (Error (''Failed to fetch alerts data: '' @ message err))"
      by simp
  qed
qed

theorem market_falls_back_alerts_raise_witness:
  "fst (market_fetchWithCache service_unavailable 400000 ''https://api.warframe.market/v1/items''
          market_with_entry) = Inr 7 \<and>
   fst (alerts_fetchWithCache service_unavailable 400000 alerts_baseURL alerts_with_entry) =
     Inl (Error ''Failed to fetch alerts data: HTTP 503: Service Unavailable'')"
proof -
  have f: "(\<exists>e. service_unavailable ''https://api.warframe.market/v1/items'' = Inl e) \<or>
        (\<exists>r. service_unavailable ''https://api.warframe.market/v1/items'' = Inr r \<and> \<not> ok r)"
    by (simp add: service_unavailable_def ok_def)
  have c: "cache market_with_entry ''https://api.warframe.market/v1/items''
        = Some \<lparr>data = 7, timestamp = 0\<rparr>"
    by (simp add: market_with_entry_def)
  have a: "fst (alerts_fetchWithCache service_unavailable 400000 alerts_baseURL alerts_with_entry) =
     Inl (Error ''Failed to fetch alerts data: HTTP 503: Service Unavailable'')"
    by (simp add: alerts_fetchWithCache_def alerts_with_entry_def WarframeAlertsAPI_def is_fresh_def
        try_fetch_def service_unavailable_def ok_def Let_def show_nat_503)
  from market_falls_back_alerts_raise
    [of service_unavailable "''https://api.warframe.market/v1/items''" market_with_entry 400000
      market_with_entry, OF f]
  obtain err where "\<forall>c. cache market_with_entry ''https://api.warframe.market/v1/items'' = Some c \<longrightarrow>
      fst (market_fetchWithCache service_unavailable 400000 ''https://api.warframe.market/v1/items''
          market_with_entry) = Inr (data c)"
    by blast
  with c have "fst (market_fetchWithCache service_unavailable 400000
      ''https://api.warframe.market/v1/items'' market_with_entry) = Inr (data \<lparr>data = 7, timestamp = 0\<rparr>)"
    by blast
  then have "fst (market_fetchWithCache service_unavailable 400000
      ''https://api.warframe.market/v1/items'' market_with_entry) = Inr 7"
    by simp
  from this a show ?thesis by (rule conjI)
qed

text \<open>
  C1 as stated fails for the world state cache: it holds an entry for the URL, fetched at
  time 0 and stale at time 400000; the server cannot be reached; the call raises.
\<close>

theorem alerts_stale_counterexample:
  "fst (alerts_fetchWithCache unreachable 400000 alerts_baseURL alerts_with_entry) =
     Inl (Error ''Failed to fetch alerts data: Failed to fetch'')"
  by (simp add: alerts_fetchWithCache_def alerts_with_entry_def WarframeAlertsAPI_def is_fresh_def
        try_fetch_def unreachable_def Let_def)

text \<open>
  C9. For either cache: an entry younger than \<open>cacheTimeout\<close> is returned with the object
  unchanged, so no request is made. After a call at \<open>t1\<close> that had to fetch and succeeded,
  exactly one request has been made; a second call less than \<open>cacheTimeout\<close> after \<open>t1\<close>
  returns the same payload and makes no request; a call \<open>cacheTimeout\<close> or more after \<open>t1\<close>
  makes a second request.
\<close>

theorem fresh_entry_served_without_fetch:
  assumes "fetchWithCache = market_fetchWithCache \<or> fetchWithCache = alerts_fetchWithCache"
  shows "(\<forall>c. cache this url = Some c \<and> now - timestamp c < cacheTimeout this \<longrightarrow>
            fetchWithCache net now url this = (Inr (data c), this)) \<and>
         (\<not> is_fresh t1 (cacheTimeout this) (cache this url) \<and> try_fetch net1 url = Inr d \<longrightarrow>
            requests (snd (fetchWithCache net1 t1 url this)) = requests this @ [url] \<and>
            (t2 - t1 < cacheTimeout this \<longrightarrow>
               fetchWithCache net2 t2 url (snd (fetchWithCache net1 t1 url this)) =
                 (Inr d, snd (fetchWithCache net1 t1 url this))) \<and>
            (\<not> t3 - t1 < cacheTimeout this \<longrightarrow>
               requests (snd (fetchWithCache net3 t3 url (snd (fetchWithCache net1 t1 url this)))) =
                 requests this @ [url, url]))"
  using assms
proof
  assume m: "fetchWithCache = market_fetchWithCache"
  show ?thesis unfolding m
  proof (intro conjI allI impI; (elim conjE)?)
    fix c assume "cache this url = Some c" "now - timestamp c < cacheTimeout this"
    then show "market_fetchWithCache net now url this = (Inr (data c), this)"
      by (rule market_fresh)
  next
    assume "\<not> is_fresh t1 (cacheTimeout this) (cache this url)"
    then show "requests (snd (market_fetchWithCache net1 t1 url this)) = requests this @ [url]"
      by (rule market_miss_requests)
  next
    assume "\<not> is_fresh t1 (cacheTimeout this) (cache this url)" "try_fetch net1 url = Inr d"
      "t2 - t1 < cacheTimeout this"
    then show "market_fetchWithCache net2 t2 url (snd (market_fetchWithCache net1 t1 url this)) =
                 (Inr d, snd (market_fetchWithCache net1 t1 url this))"
      by (rule market_fresh_after_ok)
  next
    assume "\<not> is_fresh t1 (cacheTimeout this) (cache this url)" "try_fetch net1 url = Inr d"
      "\<not> t3 - t1 < cacheTimeout this"
    then show "requests (snd (market_fetchWithCache net3 t3 url (snd (market_fetchWithCache net1 t1 url this)))) =
                 requests this @ [url, url]"
      by (rule market_stale_after_ok)
  qed
next
  assume a: "fetchWithCache = alerts_fetchWithCache"
  show ?thesis unfolding a
  proof (intro conjI allI impI; (elim conjE)?)
    fix c assume "cache this url = Some c" "now - timestamp c < cacheTimeout this"
    then show "alerts_fetchWithCache net now url this = (Inr (data c), this)"
      by (rule alerts_fresh)
  next
    assume "\<not> is_fresh t1 (cacheTimeout this) (cache this url)"
    then show "requests (snd (alerts_fetchWithCache net1 t1 url this)) = requests this @ [url]"
      by (rule alerts_miss_requests)
  next
    assume "\<not> is_fresh t1 (cacheTimeout this) (cache this url)" "try_fetch net1 url = Inr d"
      "t2 - t1 < cacheTimeout this"
    then show "alerts_fetchWithCache net2 t2 url (snd (alerts_fetchWithCache net1 t1 url this)) =
                 (Inr d, snd (alerts_fetchWithCache net1 t1 url this))"
      by (rule alerts_fresh_after_ok)
  next
    assume "\<not> is_fresh t1 (cacheTimeout this) (cache this url)" "try_fetch net1 url = Inr d"
      "\<not> t3 - t1 < cacheTimeout this"
    then show "requests (snd (alerts_fetchWithCache net3 t3 url (snd (alerts_fetchWithCache net1 t1 url this)))) =
                 requests this @ [url, url]"
      by (rule alerts_stale_after_ok)
  qed
qed

theorem fresh_entry_served_without_fetch_witness:
  "fst (market_fetchWithCache unreachable 2000 (baseURL True @ ''/items'')
          (snd (market_fetchWithCache (answers (7::nat)) 1000 (baseURL True @ ''/items'') WarframeMarketAPI)))
     = Inr 7 \<and>
   requests (snd (market_fetchWithCache unreachable 2000 (baseURL True @ ''/items'')
          (snd (market_fetchWithCache (answers (7::nat)) 1000 (baseURL True @ ''/items'') WarframeMarketAPI))))
     = [baseURL True @ ''/items''] \<and>
   requests (snd (market_fetchWithCache unreachable 301000 (baseURL True @ ''/items'')
          (snd (market_fetchWithCache (answers (7::nat)) 1000 (baseURL True @ ''/items'') WarframeMarketAPI))))
     = [baseURL True @ ''/items'', baseURL True @ ''/items'']"
proof -
  let ?url = "baseURL True @ ''/items''"
  let ?new = "WarframeMarketAPI :: nat api"
  have m: "market_fetchWithCache = (market_fetchWithCache :: nat network \<Rightarrow> _) \<or>
           market_fetchWithCache = (alerts_fetchWithCache :: nat network \<Rightarrow> _)"
    by simp
  have stale: "\<not> is_fresh 1000 (cacheTimeout ?new) (cache ?new ?url)"
    by (simp add: is_fresh_def WarframeMarketAPI_def)
  have got: "try_fetch (answers (7::nat)) ?url = Inr 7"
    by (simp add: try_fetch_def answers_def ok_def)
  have within: "(2000::int) - 1000 < cacheTimeout ?new"
    and after: "\<not> (301000::int) - 1000 < cacheTimeout ?new"
    by (simp_all add: WarframeMarketAPI_def)
  have req: "requests ?new = []"
    by (simp add: WarframeMarketAPI_def)
  from fresh_entry_served_without_fetch
    [OF m, of ?new ?url 0 unreachable 1000 "answers 7" 7 2000 unreachable 301000 unreachable]
    stale got within after
  have "requests (snd (market_fetchWithCache (answers 7) 1000 ?url ?new)) = requests ?new @ [?url]"
    and "market_fetchWithCache unreachable 2000 ?url (snd (market_fetchWithCache (answers 7) 1000 ?url ?new)) =
                 (Inr 7, snd (market_fetchWithCache (answers 7) 1000 ?url ?new))"
    and "requests (snd (market_fetchWithCache unreachable 301000 ?url
            (snd (market_fetchWithCache (answers 7) 1000 ?url ?new)))) = requests ?new @ [?url, ?url]"
    by blast+
  then show ?thesis unfolding req by simp
qed

text \<open>
  C10. \<open>searchItems\<close> returns a list on every input: at most ten items, each of which
  matches the query. When \<open>getItems\<close> fails the list is empty, in particular when the
  request fails and the cache holds no catalogue. The object is left as \<open>getItems\<close> left it.
\<close>

theorem searchItems_never_throws:
  "length (fst (searchItems e net now query this)) \<le> 10 \<and>
   snd (searchItems e net now query this) = snd (getItems e net now this) \<and>
   (\<forall>item \<in> set (fst (searchItems e net now query this)). item_matches query item = Inr True) \<and>
   (\<forall>err. fst (getItems e net now this) = Inl err \<longrightarrow>
      fst (searchItems e net now query this) = []) \<and>
   (((\<exists>err. net (baseURL e @ ''/items'') = Inl err) \<or>
     (\<exists>r. net (baseURL e @ ''/items'') = Inr r \<and> \<not> ok r)) \<and>
    cache this (baseURL e @ ''/items'') = None \<longrightarrow>
      fst (searchItems e net now query this) = [])"
proof (intro conjI allI impI)
  from searchItems_cases [of e net now query this]
  consider "fst (searchItems e net now query this) = []"
    | response where "search_in query response = Inr (fst (searchItems e net now query this))"
    by blast
  note cases = this
  from cases show "length (fst (searchItems e net now query this)) \<le> 10"
    by cases (simp, rule search_in_Inr)
  from cases show "\<forall>item \<in> set (fst (searchItems e net now query this)). item_matches query item = Inr True"
    by cases (simp, rule search_in_Inr)
  show "snd (searchItems e net now query this) = snd (getItems e net now this)"
    using searchItems_cases [of e net now query this] by blast
next
  fix err assume "fst (getItems e net now this) = Inl err"
  then show "fst (searchItems e net now query this) = []"
    by (rule searchItems_getItems_failed)
next
  let ?url = "baseURL e @ ''/items''"
  assume a: "((\<exists>err. net ?url = Inl err) \<or> (\<exists>r. net ?url = Inr r \<and> \<not> ok r)) \<and> cache this ?url = None"
  then obtain err where "try_fetch net ?url = Inl err"
    using try_fetch_fails [of net ?url] by blast
  moreover from a have "cache this ?url = None" by blast
  ultimately have "fst (market_fetchWithCache net now ?url this) = Inl err"
    by (rule market_failed_None)
  then have "fst (getItems e net now this) = Inl err"
    by (simp add: getItems_def)
  then show "fst (searchItems e net now query this) = []"
    by (rule searchItems_getItems_failed)
qed

theorem searchItems_never_throws_witness:
  "fst (searchItems True unreachable 1000 ''Prime'' WarframeMarketAPI) = [] \<and>
   length (fst (searchItems True (answers catalogue) 1000 ''Prime'' WarframeMarketAPI)) \<le> 10 \<and>
   fst (searchItems True (answers catalogue) 1000 ''Prime'' WarframeMarketAPI) =
     [JObj [(''item_name'', JStr ''Rhino Prime Set''), (''url_name'', JStr ''rhino_prime_set'')],
      JObj [(''item_name'', JStr ''Mag Prime Set''), (''url_name'', JStr ''mag_prime_set'')]]"
proof -
  have n: "(\<exists>err. (unreachable :: json network) (baseURL True @ ''/items'') = Inl err) \<or>
     (\<exists>r. (unreachable :: json network) (baseURL True @ ''/items'') = Inr r \<and> \<not> ok r)"
    by (simp add: unreachable_def)
  have c: "cache (WarframeMarketAPI :: json api) (baseURL True @ ''/items'') = None"
    by (simp add: WarframeMarketAPI_def)
  from searchItems_never_throws [of True unreachable 1000 "''Prime''" WarframeMarketAPI] n c
  have "fst (searchItems True unreachable 1000 ''Prime'' WarframeMarketAPI) = []"
    by blast
  moreover from searchItems_never_throws [of True "answers catalogue" 1000 "''Prime''" WarframeMarketAPI]
  have "length (fst (searchItems True (answers catalogue) 1000 ''Prime'' WarframeMarketAPI)) \<le> 10"
    by blast
  ultimately show ?thesis using search_prime by (intro conjI)
qed

section \<open>The timers\<close>

subsection \<open>Refreshing the tracked timers\<close>

lemma map_of_map_set: "map_of (map_set k v m) k' = (if k' = k then Some v else map_of m k')"
  by (induction m) auto

lemma map_of_upsertCycle:
  "map_of (upsertCycle name st isd time timers) name' =
     (if name' = name \<and> shouldUpdateTimer (map_of timers name) st isd time
      then Some \<lparr>seconds = time, state = st, isDay = isd\<rparr>
      else map_of timers name')"
  by (simp add: upsertCycle_def map_of_map_set)


lemma snd_displayCycle:
  "snd (displayCycle now name cdata timers) =
     (case cdata of
        None \<Rightarrow> timers
      | Some d \<Rightarrow> upsertCycle name (cycle_state name d) (cycle_isDay name d)
                    (timeInSeconds now (cd_expiry d)) timers)"
  by (simp add: displayCycle_def Let_def split: option.splits jsprim.splits)

lemma fst_displayCycle:
  "fst (displayCycle now name cdata timers) = None \<longleftrightarrow>
     (case cdata of
        None \<Rightarrow> True
      | Some d \<Rightarrow> (\<exists>s. formatCycleState name (cycle_state name d) = PStr s))"
  by (simp add: displayCycle_def Let_def split: option.splits jsprim.splits)

lemma map_of_displayCycle_other:
  "name' \<noteq> name \<Longrightarrow> map_of (snd (displayCycle now name cdata timers)) name' = map_of timers name'"
  by (cases cdata) (simp_all add: snd_displayCycle map_of_upsertCycle)

lemma map_of_displayCycle_same:
  "map_of timers name = map_of timers' name \<Longrightarrow>
   map_of (snd (displayCycle now name cdata timers)) name =
   map_of (snd (displayCycle now name cdata timers')) name"
  by (cases cdata) (simp_all add: snd_displayCycle map_of_upsertCycle)

lemma displayCycles_loop_Cons:
  "displayCycles_loop now ((n, c) # ps) timers =
     (if fst (displayCycle now n c timers) = None
      then displayCycles_loop now ps (snd (displayCycle now n c timers))
      else displayCycle now n c timers)"
  by (cases "displayCycle now n c timers") (auto split: option.splits)

lemma displayCycles_loop_other:
  "name \<notin> fst ` set ps \<Longrightarrow>
   map_of (snd (displayCycles_loop now ps timers)) name = map_of timers name"
proof (induction ps arbitrary: timers)
  case Nil
  then show ?case by simp
next
  case (Cons p ps)
  obtain n c where p: "p = (n, c)" by (cases p)
  from Cons.prems p have ne: "name \<noteq> n" and rest: "name \<notin> fst ` set ps" by auto
  show ?case
    unfolding p displayCycles_loop_Cons
    using Cons.IH [OF rest, of "snd (displayCycle now n c timers)"] ne
    by (simp add: map_of_displayCycle_other)
qed


lemma displayCycles_loop_entry_done:
  "fst (displayCycles_loop now ps timers) = None \<Longrightarrow>
   distinct (map fst ps) \<Longrightarrow> (name, cdata) \<in> set ps \<Longrightarrow>
   map_of (snd (displayCycles_loop now ps timers)) name =
     map_of (snd (displayCycle now name cdata timers)) name"
proof (induction ps arbitrary: timers)
  case Nil
  then show ?case by simp
next
  case (Cons p ps)
  obtain n c where p: "p = (n, c)" by (cases p)
  let ?t' = "snd (displayCycle now n c timers)"
  from Cons.prems(1) have ok: "fst (displayCycle now n c timers) = None"
    and rest_ok: "fst (displayCycles_loop now ps ?t') = None"
    unfolding p displayCycles_loop_Cons by (auto split: if_splits)
  show ?case
  proof (cases "(name, cdata) = p")
    case True
    with p have eq: "n = name" "c = cdata" by simp_all
    from Cons.prems(2) p eq have "name \<notin> fst ` set ps" by simp
    then have "map_of (snd (displayCycles_loop now ps ?t')) name = map_of ?t' name"
      by (rule displayCycles_loop_other)
    then show ?thesis unfolding p displayCycles_loop_Cons using eq ok by simp
  next
    case False
    with Cons.prems(3) have mem: "(name, cdata) \<in> set ps" by simp
    from Cons.prems(2) have d: "distinct (map fst ps)" by simp
    from Cons.prems(2) mem p have ne: "name \<noteq> n" by force
    have "map_of ?t' name = map_of timers name"
      using ne by (simp add: map_of_displayCycle_other)
    then have "map_of (snd (displayCycle now name cdata ?t')) name =
        map_of (snd (displayCycle now name cdata timers)) name"
      by (rule map_of_displayCycle_same)
    with Cons.IH [OF rest_ok d mem]
    show ?thesis unfolding p displayCycles_loop_Cons using ok by simp
  qed
qed






lemma fissureTimers_displayActivities:
  "fissureTimers (displayActivities True now ws this) =
     (if fissuresExpanded this \<and> (\<exists>f fs. fissures ws = Some (f # fs))
      then displayFissureDetails now ws [] else fissureTimers this)"
proof (cases "fissures ws")
  case None
  then show ?thesis by (simp add: displayActivities_def)
next
  case (Some l)
  then show ?thesis
    by (cases l) (simp_all add: displayActivities_def Let_def displayFissureDetails_def)
qed







subsection \<open>Ticking\<close>

lemma fst_tickCycle: "fst (tickCycle name t doc) = countDown t"
  by (simp add: tickCycle_def countDown_def Let_def)

lemma fst_tickExpiry: "fst (tickExpiry name t doc) = countDown t"
  by (simp add: tickExpiry_def countDown_def Let_def)

lemma fst_forEach:
  assumes "\<And>k t d. fst (f k t d) = g t"
  shows "fst (forEach f ts doc) = map (\<lambda>(k, t). (k, g t)) ts"
proof (induction ts arbitrary: doc)
  case Nil
  then show ?case by simp
next
  case (Cons p ts)
  obtain k t where p: "p = (k, t)" by (cases p)
  show ?case
    using Cons.IH [of "snd (f k t doc)"] assms [of k t doc]
    by (simp add: p case_prod_beta Let_def)
qed

lemma cycleTimers_updateTimers:
  "cycleTimers (updateTimers this) = map (\<lambda>(k, t). (k, countDown t)) (cycleTimers this)"
  by (simp add: updateTimers_def Let_def case_prod_beta fst_forEach [of tickCycle, OF fst_tickCycle])

lemma alertTimers_updateTimers:
  "alertTimers (updateTimers this) = map (\<lambda>(k, t). (k, countDown t)) (alertTimers this)"
  by (simp add: updateTimers_def Let_def case_prod_beta fst_forEach [of tickExpiry, OF fst_tickExpiry])

lemma fissureTimers_updateTimers:
  "fissureTimers (updateTimers this) = map (\<lambda>(k, t). (k, countDown t)) (fissureTimers this)"
  by (simp add: updateTimers_def Let_def case_prod_beta fst_forEach [of tickExpiry, OF fst_tickExpiry])

lemma anyExpired_updateTimers:
  "anyExpired (updateTimers this) =
     (length (expired (fst (forEach tickCycle (cycleTimers this) (document this)))) > 0 \<or>
      length (expired (fst (forEach tickExpiry (alertTimers this)
                 (snd (forEach tickCycle (cycleTimers this) (document this)))))) > 0 \<or>
      length (expired (fst (forEach tickExpiry (fissureTimers this)
                 (snd (forEach tickExpiry (alertTimers this)
                    (snd (forEach tickCycle (cycleTimers this) (document this)))))))) > 0)"
  by (simp add: anyExpired_def updateTimers_def Let_def case_prod_beta)

lemma timeouts_updateTimers:
  "timeouts (updateTimers this) =
     timeouts this @ (if anyExpired (updateTimers this) \<and> \<not> pendingRefresh this then [15000] else [])"
  unfolding anyExpired_updateTimers
  by (simp add: updateTimers_def Let_def case_prod_beta)

lemma pendingRefresh_updateTimers:
  "pendingRefresh (updateTimers this) = (pendingRefresh this \<or> anyExpired (updateTimers this))"
  unfolding anyExpired_updateTimers
  by (auto simp add: updateTimers_def Let_def case_prod_beta)

lemma expired_countDown:
  "expired ts \<noteq> [] \<Longrightarrow> expired (map (\<lambda>(k, t). (k, countDown t)) ts) \<noteq> []"
  by (induction ts) (auto simp: expired_def countDown_def split: if_splits)

lemma anyExpired_mono:
  assumes "anyExpired this"
  shows "anyExpired (updateTimers this)"
proof -
  from assms consider "expired (cycleTimers this) \<noteq> []" | "expired (alertTimers this) \<noteq> []"
    | "expired (fissureTimers this) \<noteq> []"
    unfolding anyExpired_def by fastforce
  then show ?thesis
  proof cases
    case 1
    then have "expired (cycleTimers (updateTimers this)) \<noteq> []"
      unfolding cycleTimers_updateTimers by (rule expired_countDown)
    then show ?thesis by (simp add: anyExpired_def)
  next
    case 2
    then have "expired (alertTimers (updateTimers this)) \<noteq> []"
      unfolding alertTimers_updateTimers by (rule expired_countDown)
    then show ?thesis by (simp add: anyExpired_def)
  next
    case 3
    then have "expired (fissureTimers (updateTimers this)) \<noteq> []"
      unfolding fissureTimers_updateTimers by (rule expired_countDown)
    then show ?thesis by (simp add: anyExpired_def)
  qed
qed

lemma ticks_0: "ticks 0 this = this"
  by (simp add: ticks_def)

lemma ticks_Suc: "ticks (Suc n) this = updateTimers (ticks n this)"
  by (simp add: ticks_def)

lemma ticks_while_pending:
  "pendingRefresh this \<Longrightarrow> timeouts (ticks n this) = timeouts this \<and> pendingRefresh (ticks n this)"
proof (induction n)
  case 0
  then show ?case by (simp add: ticks_0)
next
  case (Suc n)
  then show ?case
    by (simp add: ticks_Suc timeouts_updateTimers pendingRefresh_updateTimers)
qed

lemma ticks_schedule_once:
  "\<not> pendingRefresh this \<Longrightarrow>
   timeouts (ticks n this) = timeouts this @ (if 0 < n \<and> anyExpired (ticks n this) then [15000] else []) \<and>
   pendingRefresh (ticks n this) = (0 < n \<and> anyExpired (ticks n this))"
proof (induction n)
  case 0
  then show ?case by (simp add: ticks_0)
next
  case (Suc n)
  then have t: "timeouts (ticks n this) =
        timeouts this @ (if 0 < n \<and> anyExpired (ticks n this) then [15000] else [])"
    and p: "pendingRefresh (ticks n this) = (0 < n \<and> anyExpired (ticks n this))"
    by simp_all
  show ?case
  proof (cases "pendingRefresh (ticks n this)")
    case True
    with p have "anyExpired (ticks n this)" and "0 < n" by simp_all
    then have "anyExpired (ticks (Suc n) this)"
      unfolding ticks_Suc by (simp add: anyExpired_mono)
    with True t p show ?thesis
      by (simp add: ticks_Suc timeouts_updateTimers pendingRefresh_updateTimers)
  next
    case False
    with p t have "timeouts (ticks n this) = timeouts this" by auto
    with False show ?thesis
      by (simp add: ticks_Suc timeouts_updateTimers pendingRefresh_updateTimers)
  qed
qed

lemma countDown_pow:
  "0 \<le> seconds t \<Longrightarrow> (countDown ^^ n) t = t\<lparr>seconds := max 0 (seconds t - int n)\<rparr>"
proof (induction n)
  case 0
  then show ?case by simp
next
  case (Suc n)
  then show ?case by (auto simp: countDown_def max_def)
qed

lemma cycleTimers_ticks:
  "cycleTimers (ticks n this) = map (\<lambda>(k, t). (k, (countDown ^^ n) t)) (cycleTimers this)"
  by (induction n) (simp_all add: ticks_0 ticks_Suc cycleTimers_updateTimers case_prod_beta)

lemma alertTimers_ticks:
  "alertTimers (ticks n this) = map (\<lambda>(k, t). (k, (countDown ^^ n) t)) (alertTimers this)"
  by (induction n) (simp_all add: ticks_0 ticks_Suc alertTimers_updateTimers case_prod_beta)

lemma fissureTimers_ticks:
  "fissureTimers (ticks n this) = map (\<lambda>(k, t). (k, (countDown ^^ n) t)) (fissureTimers this)"
  by (induction n) (simp_all add: ticks_0 ticks_Suc fissureTimers_updateTimers case_prod_beta)

lemma map_of_counted:
  assumes "map_of ts name = Some t" and "0 \<le> seconds t"
  shows "map_of (map (\<lambda>(k, t). (k, (countDown ^^ n) t)) ts) name =
           Some (t\<lparr>seconds := max 0 (seconds t - int n)\<rparr>)"
  using assms by (simp add: map_of_map countDown_pow)

lemma tickCycle_expired_idem:
  "seconds t = 0 \<Longrightarrow> tickCycle name t (snd (tickCycle name t doc)) = tickCycle name t doc"
  by (auto simp: tickCycle_def addClass_def split: option.splits)

lemma tickExpiry_expired_idem:
  "seconds t = 0 \<Longrightarrow> tickExpiry name t (snd (tickExpiry name t doc)) = tickExpiry name t doc"
  by (auto simp: tickExpiry_def addClass_def addCardClass_def option.map_comp comp_def
      split: option.splits)

lemma anyExpired_ticks_mono: "anyExpired (ticks m this) \<Longrightarrow> anyExpired (ticks (m + k) this)"
  by (induction k) (simp_all add: ticks_Suc anyExpired_mono)


lemma example_timers:
  "cycleTimers (ticks n (example_app 2 100)) = [(''Earth'', tracked_earth (max 0 (2 - int n)))]"
  "alertTimers (ticks n (example_app 2 100)) = [(''alert-0'', tracked_alert (max 0 (100 - int n)))]"
  "fissureTimers (ticks n (example_app 2 100)) = []"
  by (simp_all add: cycleTimers_ticks alertTimers_ticks fissureTimers_ticks example_app_def
      tracked_earth_def tracked_alert_def countDown_pow)

lemma example_expired: "anyExpired (ticks 5 (example_app 2 100))"
  by (simp add: anyExpired_def example_timers expired_def tracked_earth_def)

lemma example_not_expired: "\<not> anyExpired (ticks 1 (example_app 2 100))"
  by (simp add: anyExpired_def example_timers expired_def tracked_earth_def tracked_alert_def)

lemma hasActiveTimers_iff:
  "hasActiveTimers this \<longleftrightarrow>
     (\<exists>name timer. (name, timer) \<in> set (cycleTimers this) \<and> 0 < seconds timer \<and> seconds timer < 7200)"
  by (force simp: hasActiveTimers_def list_ex_iff)

lemma document_updateTimers:
  "document (updateTimers this) =
     snd (forEach tickExpiry (fissureTimers this)
       (snd (forEach tickExpiry (alertTimers this)
         (snd (forEach tickCycle (cycleTimers this) (document this))))))"
  by (simp add: updateTimers_def Let_def case_prod_beta)

lemma snd_forEach_frame:
  assumes "\<And>k t d. x \<noteq> idf k \<Longrightarrow> snd (f k t d) x = d x"
  shows "x \<notin> set (map (\<lambda>(k, t). idf k) ts) \<Longrightarrow> snd (forEach f ts doc) x = doc x"
proof (induction ts arbitrary: doc)
  case Nil
  then show ?case by simp
next
  case (Cons p ts)
  obtain k t where p: "p = (k, t)" by (cases p)
  from Cons.prems p have ne: "x \<noteq> idf k" and rest: "x \<notin> set (map (\<lambda>(k, t). idf k) ts)"
    by auto
  have "snd (forEach f ts (snd (f k t doc))) x = snd (f k t doc) x"
    by (rule Cons.IH [OF rest])
  also have "\<dots> = doc x" using ne by (rule assms)
  finally show ?case by (simp add: p case_prod_beta)
qed

lemma snd_forEach_write:
  assumes fr: "\<And>k t d x. x \<noteq> idf k \<Longrightarrow> snd (f k t d) x = d x"
    and wr: "\<And>d. snd (f k t d) (idf k) = W (d (idf k))"
  shows "distinct (map (\<lambda>(k, t). idf k) ts) \<Longrightarrow> (k, t) \<in> set ts \<Longrightarrow>
         snd (forEach f ts doc) (idf k) = W (doc (idf k))"
proof (induction ts arbitrary: doc)
  case Nil
  then show ?case by simp
next
  case (Cons p ts)
  obtain k' t' where p: "p = (k', t')" by (cases p)
  from Cons.prems(1) p have d: "distinct (map (\<lambda>(k, t). idf k) ts)"
    and fresh: "idf k' \<notin> set (map (\<lambda>(k, t). idf k) ts)"
    by simp_all
  show ?case
  proof (cases "(k, t) = p")
    case True
    with p have eq: "k' = k" "t' = t" by simp_all
    from fresh eq have "idf k \<notin> set (map (\<lambda>(k, t). idf k) ts)" by simp
    then have notin: "idf k \<notin> set (map (\<lambda>(k, t). idf k) ts)" .
    have "snd (forEach f ts (snd (f k t doc))) (idf k) = snd (f k t doc) (idf k)"
    proof (rule snd_forEach_frame [where idf = idf and f = f])
      show "snd (f k' t' d) (idf k) = d (idf k)" if "idf k \<noteq> idf k'" for k' t' d
        using that by (rule fr)
      show "idf k \<notin> set (map (\<lambda>(k, t). idf k) ts)" by (rule notin)
    qed
    also have "\<dots> = W (doc (idf k))" by (rule wr)
    finally show ?thesis by (simp add: p eq case_prod_beta)
  next
    case False
    with Cons.prems(2) have mem: "(k, t) \<in> set ts" by simp
    then have "idf k \<in> set (map (\<lambda>(k, t). idf k) ts)" by force
    with fresh have ne: "idf k \<noteq> idf k'" by auto
    have "snd (forEach f ts (snd (f k' t' doc))) (idf k) = W (snd (f k' t' doc) (idf k))"
      by (rule Cons.IH [OF d mem])
    also have "snd (f k' t' doc) (idf k) = doc (idf k)" using ne by (rule fr)
    finally show ?thesis by (simp add: p case_prod_beta)
  qed
qed

lemma refreshTimeout_fired:
  assumes "timeouts this = delay # later"
  shows "timeouts (refreshTimeout this) = later" and "\<not> pendingRefresh (refreshTimeout this)"
    and "cycleTimers (refreshTimeout this) = cycleTimers this"
    and "alertTimers (refreshTimeout this) = alertTimers this"
    and "fissureTimers (refreshTimeout this) = fissureTimers this"
    and "loadsStarted (refreshTimeout this) =
           (if currentMainTab this = ''alerts'' then loadsStarted this + 1 else loadsStarted this)"
  using assms by (simp_all add: refreshTimeout_def Let_def)

lemma reschedule_after_callback:
  assumes "anyExpired this" and "timeouts this = [delay]"
  shows "timeouts (updateTimers (refreshTimeout this)) = [15000]"
    and "pendingRefresh (updateTimers (refreshTimeout this))"
proof -
  have "anyExpired (refreshTimeout this)"
    using assms(1) by (simp add: anyExpired_def refreshTimeout_fired [OF assms(2)])
  then have e: "anyExpired (updateTimers (refreshTimeout this))" by (rule anyExpired_mono)
  then show "timeouts (updateTimers (refreshTimeout this)) = [15000]"
    by (simp add: timeouts_updateTimers refreshTimeout_fired [OF assms(2)])
  from e show "pendingRefresh (updateTimers (refreshTimeout this))"
    by (simp add: pendingRefresh_updateTimers)
qed

lemma shouldRefresh_iff:
  "shouldRefresh now this \<longleftrightarrow>
      lastRefresh this = None \<or> lastRefresh this = Some 0 \<or>
      (\<exists>l. lastRefresh this = Some l \<and> 120000 < now - l) \<or>
      (\<nexists>name timer. (name, timer) \<in> set (cycleTimers this) \<and> 0 < seconds timer \<and> seconds timer < 7200)"
  unfolding shouldRefresh_def hasActiveTimers_iff
  by (cases "lastRefresh this") auto

subsection \<open>What a tick writes on the page\<close>

lemma tickCycle_frame: "x \<noteq> cycleTimerId k \<Longrightarrow> snd (tickCycle k t d) x = d x"
  by (simp add: tickCycle_def Let_def split: option.splits)

lemma tickExpiry_frame: "x \<noteq> k @ ''-timer'' \<Longrightarrow> snd (tickExpiry k t d) x = d x"
  by (simp add: tickExpiry_def Let_def split: option.splits)

lemma forEach_tickCycle_frame:
  assumes "x \<notin> set (map (\<lambda>(name, timer). cycleTimerId name) ts)"
  shows "snd (forEach tickCycle ts doc) x = doc x"
proof (rule snd_forEach_frame [where idf = cycleTimerId and f = tickCycle])
  show "snd (tickCycle k t d) x = d x" if "x \<noteq> cycleTimerId k" for k t d
    using that by (rule tickCycle_frame)
  show "x \<notin> set (map (\<lambda>(k, t). cycleTimerId k) ts)" by (rule assms)
qed

lemma forEach_tickExpiry_frame:
  assumes "x \<notin> set (map (\<lambda>(name, timer). name @ ''-timer'') ts)"
  shows "snd (forEach tickExpiry ts doc) x = doc x"
proof (rule snd_forEach_frame [where idf = "\<lambda>k. k @ ''-timer''" and f = tickExpiry])
  show "snd (tickExpiry k t d) x = d x" if "x \<noteq> k @ ''-timer''" for k t d
    using that by (rule tickExpiry_frame)
  show "x \<notin> set (map (\<lambda>(k, t). k @ ''-timer'') ts)" by (rule assms)
qed

lemma tickCycle_expired:
  "seconds t = 0 \<Longrightarrow>
   snd (tickCycle k t d) (cycleTimerId k) =
     map_option (\<lambda>el. el\<lparr>textContent := ''Cycle changing...'',
                         classList := insert ''warning'' (classList el)\<rparr>) (d (cycleTimerId k))"
  by (simp add: tickCycle_def addClass_def split: option.splits)

lemma tickExpiry_expired:
  "seconds t = 0 \<Longrightarrow>
   snd (tickExpiry k t d) (k @ ''-timer'') =
     map_option (\<lambda>el. el\<lparr>textContent := ''Expired'',
                         classList := insert ''warning'' (classList el),
                         card := map_option (insert ''expired'') (card el)\<rparr>) (d (k @ ''-timer''))"
  by (simp add: tickExpiry_def addClass_def addCardClass_def split: option.splits)

lemma forEach_tickCycle_expired:
  assumes "distinct (map (\<lambda>(name, timer). cycleTimerId name) ts)" and "(name, c) \<in> set ts"
    and "seconds c = 0"
  shows "snd (forEach tickCycle ts doc) (cycleTimerId name) =
     map_option (\<lambda>el. el\<lparr>textContent := ''Cycle changing...'',
                         classList := insert ''warning'' (classList el)\<rparr>) (doc (cycleTimerId name))"
proof (rule snd_forEach_write [where idf = cycleTimerId and f = tickCycle and t = c])
  show "snd (tickCycle k t d) x = d x" if "x \<noteq> cycleTimerId k" for k t d x
    using that by (rule tickCycle_frame)
  show "snd (tickCycle name c d) (cycleTimerId name) =
     map_option (\<lambda>el. el\<lparr>textContent := ''Cycle changing...'',
                         classList := insert ''warning'' (classList el)\<rparr>) (d (cycleTimerId name))" for d
    using assms(3) by (rule tickCycle_expired)
  show "distinct (map (\<lambda>(k, t). cycleTimerId k) ts)" by (rule assms(1))
  show "(name, c) \<in> set ts" by (rule assms(2))
qed

lemma forEach_tickExpiry_expired:
  assumes "distinct (map (\<lambda>(name, timer). name @ ''-timer'') ts)" and "(name, a) \<in> set ts"
    and "seconds a = 0"
  shows "snd (forEach tickExpiry ts doc) (name @ ''-timer'') =
     map_option (\<lambda>el. el\<lparr>textContent := ''Expired'',
                         classList := insert ''warning'' (classList el),
                         card := map_option (insert ''expired'') (card el)\<rparr>) (doc (name @ ''-timer''))"
proof (rule snd_forEach_write [where idf = "\<lambda>k. k @ ''-timer''" and f = tickExpiry and t = a])
  show "snd (tickExpiry k t d) x = d x" if "x \<noteq> k @ ''-timer''" for k t d x
    using that by (rule tickExpiry_frame)
  show "snd (tickExpiry name a d) (name @ ''-timer'') =
     map_option (\<lambda>el. el\<lparr>textContent := ''Expired'',
                         classList := insert ''warning'' (classList el),
                         card := map_option (insert ''expired'') (card el)\<rparr>) (d (name @ ''-timer''))" for d
    using assms(3) by (rule tickExpiry_expired)
  show "distinct (map (\<lambda>(k, t). k @ ''-timer'') ts)" by (rule assms(1))
  show "(name, a) \<in> set ts" by (rule assms(2))
qed

lemma distinct_timerElementIds:
  assumes "distinct (timerElementIds this)"
  shows "distinct (map (\<lambda>(name, timer). cycleTimerId name) (cycleTimers this))"
    and "distinct (map (\<lambda>(name, timer). name @ ''-timer'') (alertTimers this))"
    and "distinct (map (\<lambda>(name, timer). name @ ''-timer'') (fissureTimers this))"
    and "set (map (\<lambda>(name, timer). cycleTimerId name) (cycleTimers this)) \<inter>
         set (map (\<lambda>(name, timer). name @ ''-timer'') (alertTimers this)) = {}"
    and "set (map (\<lambda>(name, timer). cycleTimerId name) (cycleTimers this)) \<inter>
         set (map (\<lambda>(name, timer). name @ ''-timer'') (fissureTimers this)) = {}"
    and "set (map (\<lambda>(name, timer). name @ ''-timer'') (alertTimers this)) \<inter>
         set (map (\<lambda>(name, timer). name @ ''-timer'') (fissureTimers this)) = {}"
proof -
  let ?C = "map (\<lambda>(name, timer). cycleTimerId name) (cycleTimers this)"
  let ?A = "map (\<lambda>(name, timer). name @ ''-timer'') (alertTimers this)"
  let ?F = "map (\<lambda>(name, timer). name @ ''-timer'') (fissureTimers this)"
  from assms have all: "distinct (?C @ ?A @ ?F)" by (simp only: timerElementIds_def)
  then have c: "distinct ?C" and af: "distinct (?A @ ?F)" and caf: "set ?C \<inter> set (?A @ ?F) = {}"
    by (simp_all only: distinct_append)
  from af have a: "distinct ?A" and f: "distinct ?F" and aF: "set ?A \<inter> set ?F = {}"
    by (simp_all only: distinct_append)
  from caf have cA: "set ?C \<inter> set ?A = {}" and cF: "set ?C \<inter> set ?F = {}"
    by (simp_all only: set_append Int_Un_distrib Un_empty)
  show "distinct ?C" by (rule c)
  show "distinct ?A" by (rule a)
  show "distinct ?F" by (rule f)
  show "set ?C \<inter> set ?A = {}" by (rule cA)
  show "set ?C \<inter> set ?F = {}" by (rule cF)
  show "set ?A \<inter> set ?F = {}" by (rule aF)
qed

lemma in_ids:
  "(name, t) \<in> set ts \<Longrightarrow> idf name \<in> set (map (\<lambda>(name, timer). idf name) ts)"
  by (induction ts) auto

lemma expired_cycle_shown:
  assumes d: "distinct (timerElementIds this)" and mem: "(name, c) \<in> set (cycleTimers this)"
    and zero: "seconds c = 0"
  shows "document (updateTimers this) (cycleTimerId name) =
     map_option (\<lambda>el. el\<lparr>textContent := ''Cycle changing...'',
                         classList := insert ''warning'' (classList el)\<rparr>)
       (document this (cycleTimerId name))"
proof -
  let ?doc1 = "snd (forEach tickCycle (cycleTimers this) (document this))"
  let ?doc2 = "snd (forEach tickExpiry (alertTimers this) ?doc1)"
  let ?doc3 = "snd (forEach tickExpiry (fissureTimers this) ?doc2)"
  from mem have here: "cycleTimerId name \<in> set (map (\<lambda>(name, timer). cycleTimerId name) (cycleTimers this))"
    by (rule in_ids)
  with distinct_timerElementIds(4,5) [OF d]
  have nota: "cycleTimerId name \<notin> set (map (\<lambda>(name, timer). name @ ''-timer'') (alertTimers this))"
    and notf: "cycleTimerId name \<notin> set (map (\<lambda>(name, timer). name @ ''-timer'') (fissureTimers this))"
    by blast+
  have "?doc3 (cycleTimerId name) = ?doc2 (cycleTimerId name)"
    using notf by (rule forEach_tickExpiry_frame)
  also have "\<dots> = ?doc1 (cycleTimerId name)"
    using nota by (rule forEach_tickExpiry_frame)
  also have "\<dots> = map_option (\<lambda>el. el\<lparr>textContent := ''Cycle changing...'',
                         classList := insert ''warning'' (classList el)\<rparr>)
       (document this (cycleTimerId name))"
    using distinct_timerElementIds(1) [OF d] mem zero by (rule forEach_tickCycle_expired)
  finally show ?thesis unfolding document_updateTimers .
qed

lemma expired_alert_shown:
  assumes d: "distinct (timerElementIds this)" and mem: "(name, a) \<in> set (alertTimers this)"
    and zero: "seconds a = 0"
  shows "document (updateTimers this) (name @ ''-timer'') =
     map_option (\<lambda>el. el\<lparr>textContent := ''Expired'',
                         classList := insert ''warning'' (classList el),
                         card := map_option (insert ''expired'') (card el)\<rparr>)
       (document this (name @ ''-timer''))"
proof -
  let ?doc1 = "snd (forEach tickCycle (cycleTimers this) (document this))"
  let ?doc2 = "snd (forEach tickExpiry (alertTimers this) ?doc1)"
  let ?doc3 = "snd (forEach tickExpiry (fissureTimers this) ?doc2)"
  from mem have here: "name @ ''-timer'' \<in> set (map (\<lambda>(name, timer). name @ ''-timer'') (alertTimers this))"
    by (rule in_ids [where idf = "\<lambda>k. k @ ''-timer''"])
  with distinct_timerElementIds(4,6) [OF d]
  have notc: "name @ ''-timer'' \<notin> set (map (\<lambda>(name, timer). cycleTimerId name) (cycleTimers this))"
    and notf: "name @ ''-timer'' \<notin> set (map (\<lambda>(name, timer). name @ ''-timer'') (fissureTimers this))"
    by blast+
  have "?doc3 (name @ ''-timer'') = ?doc2 (name @ ''-timer'')"
    using notf by (rule forEach_tickExpiry_frame)
  also have "\<dots> = map_option (\<lambda>el. el\<lparr>textContent := ''Expired'',
                         classList := insert ''warning'' (classList el),
                         card := map_option (insert ''expired'') (card el)\<rparr>)
       (?doc1 (name @ ''-timer''))"
    using distinct_timerElementIds(2) [OF d] mem zero by (rule forEach_tickExpiry_expired)
  also have "?doc1 (name @ ''-timer'') = document this (name @ ''-timer'')"
    using notc by (rule forEach_tickCycle_frame)
  finally show ?thesis unfolding document_updateTimers .
qed

lemma expired_fissure_shown:
  assumes d: "distinct (timerElementIds this)" and mem: "(name, a) \<in> set (fissureTimers this)"
    and zero: "seconds a = 0"
  shows "document (updateTimers this) (name @ ''-timer'') =
     map_option (\<lambda>el. el\<lparr>textContent := ''Expired'',
                         classList := insert ''warning'' (classList el),
                         card := map_option (insert ''expired'') (card el)\<rparr>)
       (document this (name @ ''-timer''))"
proof -
  let ?doc1 = "snd (forEach tickCycle (cycleTimers this) (document this))"
  let ?doc2 = "snd (forEach tickExpiry (alertTimers this) ?doc1)"
  let ?doc3 = "snd (forEach tickExpiry (fissureTimers this) ?doc2)"
  from mem have here: "name @ ''-timer'' \<in> set (map (\<lambda>(name, timer). name @ ''-timer'') (fissureTimers this))"
    by (rule in_ids [where idf = "\<lambda>k. k @ ''-timer''"])
  with distinct_timerElementIds(5,6) [OF d]
  have notc: "name @ ''-timer'' \<notin> set (map (\<lambda>(name, timer). cycleTimerId name) (cycleTimers this))"
    and nota: "name @ ''-timer'' \<notin> set (map (\<lambda>(name, timer). name @ ''-timer'') (alertTimers this))"
    by blast+
  have "?doc3 (name @ ''-timer'') = map_option (\<lambda>el. el\<lparr>textContent := ''Expired'',
                         classList := insert ''warning'' (classList el),
                         card := map_option (insert ''expired'') (card el)\<rparr>)
       (?doc2 (name @ ''-timer''))"
    using distinct_timerElementIds(3) [OF d] mem zero by (rule forEach_tickExpiry_expired)
  also have "?doc2 (name @ ''-timer'') = ?doc1 (name @ ''-timer'')"
    using nota by (rule forEach_tickExpiry_frame)
  also have "\<dots> = document this (name @ ''-timer'')"
    using notc by (rule forEach_tickCycle_frame)
  finally show ?thesis unfolding document_updateTimers .
qed

lemma cycleTimerId_Earth: "cycleTimerId ''Earth'' = ''timer-earth''"
  by code_simp

lemma distinct_example_ids: "distinct (timerElementIds (example_app s1 s2))"
  by (simp add: timerElementIds_def example_app_def cycleTimerId_Earth)

subsection \<open>Claims on the timers\<close>




text \<open>
  C3. After \<open>n\<close> ticks with nothing in between, a timer of any of the three maps that had
  \<open>s \<ge> 0\<close> seconds left has \<open>max 0 (s - n)\<close> left and is otherwise unchanged: one second less
  per tick while positive, and 0 for good once 0 is reached. The callback run on a timer at
  0 gives its element, if the page has it, the expired display: the text
  "Cycle changing..." for a cycle and "Expired" for an alert or a fissure, the class
  \<open>warning\<close>, and the class \<open>expired\<close> on the card of an alert or a fissure; running it again
  changes nothing more. When every tracked timer has an element id of its own, this is the
  state of that element after the whole tick.
\<close>

theorem countdown_to_zero:
  "(map_of (cycleTimers this) name = Some c \<and> 0 \<le> seconds c \<longrightarrow>
      map_of (cycleTimers (ticks n this)) name = Some (c\<lparr>seconds := max 0 (seconds c - int n)\<rparr>)) \<and>
   (map_of (alertTimers this) name = Some a \<and> 0 \<le> seconds a \<longrightarrow>
      map_of (alertTimers (ticks n this)) name = Some (a\<lparr>seconds := max 0 (seconds a - int n)\<rparr>)) \<and>
   (map_of (fissureTimers this) name = Some f \<and> 0 \<le> seconds f \<longrightarrow>
      map_of (fissureTimers (ticks n this)) name = Some (f\<lparr>seconds := max 0 (seconds f - int n)\<rparr>)) \<and>
   (seconds c = 0 \<longrightarrow> tickCycle name c (snd (tickCycle name c doc)) = tickCycle name c doc) \<and>
   (seconds a = 0 \<longrightarrow> tickExpiry name a (snd (tickExpiry name a doc)) = tickExpiry name a doc) \<and>
   (seconds c = 0 \<longrightarrow>
      snd (tickCycle name c doc) (cycleTimerId name) =
        map_option (\<lambda>el. el\<lparr>textContent := ''Cycle changing...'',
                            classList := insert ''warning'' (classList el)\<rparr>)
          (doc (cycleTimerId name))) \<and>
   (seconds a = 0 \<longrightarrow>
      snd (tickExpiry name a doc) (name @ ''-timer'') =
        map_option (\<lambda>el. el\<lparr>textContent := ''Expired'',
                            classList := insert ''warning'' (classList el),
                            card := map_option (insert ''expired'') (card el)\<rparr>)
          (doc (name @ ''-timer''))) \<and>
   (distinct (timerElementIds this) \<and> (name, c) \<in> set (cycleTimers this) \<and> seconds c = 0 \<longrightarrow>
      document (updateTimers this) (cycleTimerId name) =
        map_option (\<lambda>el. el\<lparr>textContent := ''Cycle changing...'',
                            classList := insert ''warning'' (classList el)\<rparr>)
          (document this (cycleTimerId name))) \<and>
   (distinct (timerElementIds this) \<and> (name, a) \<in> set (alertTimers this) \<and> seconds a = 0 \<longrightarrow>
      document (updateTimers this) (name @ ''-timer'') =
        map_option (\<lambda>el. el\<lparr>textContent := ''Expired'',
                            classList := insert ''warning'' (classList el),
                            card := map_option (insert ''expired'') (card el)\<rparr>)
          (document this (name @ ''-timer''))) \<and>
   (distinct (timerElementIds this) \<and> (name, f) \<in> set (fissureTimers this) \<and> seconds f = 0 \<longrightarrow>
      document (updateTimers this) (name @ ''-timer'') =
        map_option (\<lambda>el. el\<lparr>textContent := ''Expired'',
                            classList := insert ''warning'' (classList el),
                            card := map_option (insert ''expired'') (card el)\<rparr>)
          (document this (name @ ''-timer'')))"
proof (intro conjI impI; (elim conjE)?)
  assume "map_of (cycleTimers this) name = Some c" "0 \<le> seconds c"
  then show "map_of (cycleTimers (ticks n this)) name = Some (c\<lparr>seconds := max 0 (seconds c - int n)\<rparr>)"
    unfolding cycleTimers_ticks by (rule map_of_counted)
next
  assume "map_of (alertTimers this) name = Some a" "0 \<le> seconds a"
  then show "map_of (alertTimers (ticks n this)) name = Some (a\<lparr>seconds := max 0 (seconds a - int n)\<rparr>)"
    unfolding alertTimers_ticks by (rule map_of_counted)
next
  assume "map_of (fissureTimers this) name = Some f" "0 \<le> seconds f"
  then show "map_of (fissureTimers (ticks n this)) name = Some (f\<lparr>seconds := max 0 (seconds f - int n)\<rparr>)"
    unfolding fissureTimers_ticks by (rule map_of_counted)
next
  assume "seconds c = 0"
  then show "tickCycle name c (snd (tickCycle name c doc)) = tickCycle name c doc"
    by (rule tickCycle_expired_idem)
next
  assume "seconds a = 0"
  then show "tickExpiry name a (snd (tickExpiry name a doc)) = tickExpiry name a doc"
    by (rule tickExpiry_expired_idem)
next
  assume "seconds c = 0"
  then show "snd (tickCycle name c doc) (cycleTimerId name) =
        map_option (\<lambda>el. el\<lparr>textContent := ''Cycle changing...'',
                            classList := insert ''warning'' (classList el)\<rparr>)
          (doc (cycleTimerId name))"
    by (rule tickCycle_expired)
next
  assume "seconds a = 0"
  then show "snd (tickExpiry name a doc) (name @ ''-timer'') =
        map_option (\<lambda>el. el\<lparr>textContent := ''Expired'',
                            classList := insert ''warning'' (classList el),
                            card := map_option (insert ''expired'') (card el)\<rparr>)
          (doc (name @ ''-timer''))"
    by (rule tickExpiry_expired)
next
  assume "distinct (timerElementIds this)" "(name, c) \<in> set (cycleTimers this)" "seconds c = 0"
  then show "document (updateTimers this) (cycleTimerId name) =
        map_option (\<lambda>el. el\<lparr>textContent := ''Cycle changing...'',
                            classList := insert ''warning'' (classList el)\<rparr>)
          (document this (cycleTimerId name))"
    by (rule expired_cycle_shown)
next
  assume "distinct (timerElementIds this)" "(name, a) \<in> set (alertTimers this)" "seconds a = 0"
  then show "document (updateTimers this) (name @ ''-timer'') =
        map_option (\<lambda>el. el\<lparr>textContent := ''Expired'',
                            classList := insert ''warning'' (classList el),
                            card := map_option (insert ''expired'') (card el)\<rparr>)
          (document this (name @ ''-timer''))"
    by (rule expired_alert_shown)
next
  assume "distinct (timerElementIds this)" "(name, f) \<in> set (fissureTimers this)" "seconds f = 0"
  then show "document (updateTimers this) (name @ ''-timer'') =
        map_option (\<lambda>el. el\<lparr>textContent := ''Expired'',
                            classList := insert ''warning'' (classList el),
                            card := map_option (insert ''expired'') (card el)\<rparr>)
          (document this (name @ ''-timer''))"
    by (rule expired_fissure_shown)
qed

theorem countdown_to_zero_witness:
  "map_of (cycleTimers (ticks 1 (example_app 2 100))) ''Earth'' = Some (tracked_earth 1) \<and>
   map_of (cycleTimers (ticks 5 (example_app 2 100))) ''Earth'' = Some (tracked_earth 0) \<and>
   map_of (alertTimers (ticks 5 (example_app 2 100))) ''alert-0'' = Some (tracked_alert 95) \<and>
   document (updateTimers (example_app 0 100)) ''timer-earth'' =
     Some \<lparr>textContent = ''Cycle changing...'', classList = {''warning'', ''cycle-timer''}, card = None\<rparr> \<and>
   document (updateTimers (example_app 2 0)) ''alert-0-timer'' =
     Some \<lparr>textContent = ''Expired'', classList = {''warning'', ''alert-timer''},
           card = Some {''expired'', ''alert-card''}\<rparr>"
proof -
  have c: "map_of (cycleTimers (example_app 2 100)) ''Earth'' = Some (tracked_earth 2)"
    and a: "map_of (alertTimers (example_app 2 100)) ''alert-0'' = Some (tracked_alert 100)"
    by (simp_all add: example_app_def)
  have pos: "0 \<le> seconds (tracked_earth 2)" "0 \<le> seconds (tracked_alert 100)"
    by (simp_all add: tracked_earth_def tracked_alert_def)
  from countdown_to_zero [of "example_app 2 100" "''Earth''" "tracked_earth 2" 1] c pos
  have "map_of (cycleTimers (ticks 1 (example_app 2 100))) ''Earth'' =
      Some ((tracked_earth 2)\<lparr>seconds := max 0 (seconds (tracked_earth 2) - int 1)\<rparr>)"
    by blast
  then have one: "map_of (cycleTimers (ticks 1 (example_app 2 100))) ''Earth'' = Some (tracked_earth 1)"
    by (simp add: tracked_earth_def)
  from countdown_to_zero [of "example_app 2 100" "''Earth''" "tracked_earth 2" 5] c pos
  have "map_of (cycleTimers (ticks 5 (example_app 2 100))) ''Earth'' =
      Some ((tracked_earth 2)\<lparr>seconds := max 0 (seconds (tracked_earth 2) - int 5)\<rparr>)"
    by blast
  then have five: "map_of (cycleTimers (ticks 5 (example_app 2 100))) ''Earth'' = Some (tracked_earth 0)"
    by (simp add: tracked_earth_def)
  from countdown_to_zero [of "example_app 2 100" "''alert-0''" _ 5 "tracked_alert 100"] a pos
  have "map_of (alertTimers (ticks 5 (example_app 2 100))) ''alert-0'' =
      Some ((tracked_alert 100)\<lparr>seconds := max 0 (seconds (tracked_alert 100) - int 5)\<rparr>)"
    by blast
  then have al: "map_of (alertTimers (ticks 5 (example_app 2 100))) ''alert-0'' = Some (tracked_alert 95)"
    by (simp add: tracked_alert_def)
  have mc: "(''Earth'', tracked_earth 0) \<in> set (cycleTimers (example_app 0 100))"
    and zc: "seconds (tracked_earth 0) = 0"
    by (simp_all add: example_app_def tracked_earth_def)
  from countdown_to_zero [of "example_app 0 100" "''Earth''" "tracked_earth 0"]
    distinct_example_ids [of 0 100] mc zc
  have "document (updateTimers (example_app 0 100)) (cycleTimerId ''Earth'') =
        map_option (\<lambda>el. el\<lparr>textContent := ''Cycle changing...'',
                            classList := insert ''warning'' (classList el)\<rparr>)
          (document (example_app 0 100) (cycleTimerId ''Earth''))"
    by blast
  then have shown_c: "document (updateTimers (example_app 0 100)) ''timer-earth'' =
     Some \<lparr>textContent = ''Cycle changing...'', classList = {''warning'', ''cycle-timer''}, card = None\<rparr>"
    by (simp add: cycleTimerId_Earth example_app_def example_page_def)
  have ma: "(''alert-0'', tracked_alert 0) \<in> set (alertTimers (example_app 2 0))"
    and za: "seconds (tracked_alert 0) = 0"
    by (simp_all add: example_app_def tracked_alert_def)
  from countdown_to_zero [of "example_app 2 0" "''alert-0''" _ _ "tracked_alert 0"]
    distinct_example_ids [of 2 0] ma za
  have "document (updateTimers (example_app 2 0)) (''alert-0'' @ ''-timer'') =
        map_option (\<lambda>el. el\<lparr>textContent := ''Expired'',
                            classList := insert ''warning'' (classList el),
                            card := map_option (insert ''expired'') (card el)\<rparr>)
          (document (example_app 2 0) (''alert-0'' @ ''-timer''))"
    by blast
  then have shown_a: "document (updateTimers (example_app 2 0)) ''alert-0-timer'' =
     Some \<lparr>textContent = ''Expired'', classList = {''warning'', ''alert-timer''},
           card = Some {''expired'', ''alert-card''}\<rparr>"
    by (simp add: example_app_def example_page_def)
  from one five al shown_c shown_a show ?thesis by (intro conjI)
qed

text \<open>
  C4. The code departs from the rule: one second after a refresh, with an alert timer at 100
  seconds and the only cycle timer at 9000 seconds, the check of the one minute interval
  starts a refresh, because \<open>hasActiveTimers\<close> is computed from \<open>cycleTimers\<close> alone. By the
  rule (and by the comment above the check) no refresh is due: a tracked timer is between 0
  and 7200 seconds.
\<close>

theorem refresh_ignores_alert_timer:
  "map_of (alertTimers (example_app 9000 100)) ''alert-0'' = Some (tracked_alert 100) \<and>
   lastRefresh (example_app 9000 100) = Some 1000000 \<and>
   shouldRefresh 1001000 (example_app 9000 100) \<and>
   loadsStarted (refreshCheck 1001000 (example_app 9000 100)) =
     loadsStarted (example_app 9000 100) + 1 \<and>
   spec_refresh_due 1001000 (example_app 9000 100) = False"
proof -
  have s: "shouldRefresh 1001000 (example_app 9000 100)"
    by (simp add: shouldRefresh_def hasActiveTimers_def example_app_def tracked_earth_def)
  then have l: "loadsStarted (refreshCheck 1001000 (example_app 9000 100)) =
     loadsStarted (example_app 9000 100) + 1"
    by (simp add: refreshCheck_def)
  have d: "spec_refresh_due 1001000 (example_app 9000 100) = False"
    by (simp add: spec_refresh_due_def example_app_def tracked_earth_def tracked_alert_def)
  have a: "map_of (alertTimers (example_app 9000 100)) ''alert-0'' = Some (tracked_alert 100)"
    and r: "lastRefresh (example_app 9000 100) = Some 1000000"
    by (simp_all add: example_app_def)
  from a r s l d show ?thesis by (intro conjI)
qed

theorem refresh_ignores_alert_timer_witness:
  "loadsStarted (refreshCheck 1001000 (example_app 9000 100)) = 1"
proof -
  from refresh_ignores_alert_timer
  have "loadsStarted (refreshCheck 1001000 (example_app 9000 100)) =
     loadsStarted (example_app 9000 100) + 1"
    by blast
  then show ?thesis by (simp add: example_app_def)
qed

text \<open>
  C5. The code schedules a second refresh for the same expiry. The Earth timer reaches 0 and
  one callback with a delay of 15000 ms is scheduled. When the callback runs it starts
  \<open>loadAlertsData\<close> and clears \<open>pendingRefresh\<close> without waiting for it; nothing has been
  refreshed yet, the timer is still at 0, and the next tick schedules a second callback,
  which starts a second refresh.
\<close>

theorem second_refresh_for_same_expiry:
  "timeouts (ticks 5 (example_app 2 100)) = [15000] \<and>
   loadsStarted (refreshTimeout (ticks 5 (example_app 2 100))) = 1 \<and>
   cycleTimers (refreshTimeout (ticks 5 (example_app 2 100))) = [(''Earth'', tracked_earth 0)] \<and>
   lastRefresh (refreshTimeout (ticks 5 (example_app 2 100))) = Some 1000000 \<and>
   timeouts (updateTimers (refreshTimeout (ticks 5 (example_app 2 100)))) = [15000] \<and>
   loadsStarted (refreshTimeout (updateTimers (refreshTimeout (ticks 5 (example_app 2 100))))) = 2"
proof -
  let ?s = "ticks 5 (example_app 2 100)"
  have np: "\<not> pendingRefresh (example_app 2 100)" and t0: "timeouts (example_app 2 100) = []"
    by (simp_all add: example_app_def)
  have five: "timeouts ?s = [15000]"
    using ticks_schedule_once [OF np, of 5] t0 example_expired by simp
  have tab: "currentMainTab (ticks n (example_app 2 100)) = ''alerts''"
    and started: "loadsStarted (ticks n (example_app 2 100)) = 0"
    and last: "lastRefresh (ticks n (example_app 2 100)) = Some 1000000" for n
    by (induction n)
       (simp_all add: ticks_0 ticks_Suc example_app_def updateTimers_def Let_def case_prod_beta)
  have one: "loadsStarted (refreshTimeout ?s) = 1"
    using refreshTimeout_fired(6) [OF five] tab [of 5] started [of 5] by simp
  have cyc: "cycleTimers (refreshTimeout ?s) = [(''Earth'', tracked_earth 0)]"
    using refreshTimeout_fired(3) [OF five] example_timers(1) [of 5] by simp
  have lr: "lastRefresh (refreshTimeout ?s) = Some 1000000"
    using five last [of 5] by (simp add: refreshTimeout_def Let_def)
  have again: "timeouts (updateTimers (refreshTimeout ?s)) = [15000]"
    using example_expired five by (rule reschedule_after_callback(1))
  have tab': "currentMainTab (updateTimers (refreshTimeout ?s)) = ''alerts''"
    and started': "loadsStarted (updateTimers (refreshTimeout ?s)) = 1"
    using one tab [of 5] five
    by (simp_all add: updateTimers_def Let_def case_prod_beta refreshTimeout_def)
  have two: "loadsStarted (refreshTimeout (updateTimers (refreshTimeout ?s))) = 2"
    using refreshTimeout_fired(6) [OF again] tab' started' by simp
  from five one cyc lr again two show ?thesis by (intro conjI)
qed

theorem second_refresh_for_same_expiry_witness:
  "timeouts (updateTimers (refreshTimeout (ticks 5 (example_app 2 100)))) = [15000]"
  using second_refresh_for_same_expiry by blast

end
